theory Spec2Isabelle
  imports Complex_Main
begin

section \<open>Values, exceptions and outcomes\<close>

text \<open>
  The calculator script \<^verbatim>\<open>app.py\<close> works on three types of Python values: \<^verbatim>\<open>int\<close>
  (the Factorial widget), \<^verbatim>\<open>float\<close> (every other number widget) and \<^verbatim>\<open>None\<close> (the
  initial value of \<^verbatim>\<open>x\<close>, \<^verbatim>\<open>y\<close>, \<^verbatim>\<open>base\<close> and \<^verbatim>\<open>result\<close>). Python's unbounded
  \<^verbatim>\<open>int\<close> is \<^typ>\<open>int\<close>.

  A \<^verbatim>\<open>float\<close> is idealised as a \<^typ>\<open>real\<close>: \<open>PFloat r\<close> stands for the float nearest to
  \<open>r\<close>, and the operations are the exact real ones, so the rounding of a value is not
  part of these definitions (it is taken up separately for the sine round trip). The
  range of the format is part of them: a real at or beyond \<open>float_overflow\<close> has no
  finite float next to it and stands for an infinity. There \<^verbatim>\<open>math.pow\<close> and
  \<^verbatim>\<open>math.exp\<close> raise \<^verbatim>\<open>OverflowError\<close>, the arithmetic operators return the infinity
  without raising, and the fixed-point format prints \<^verbatim>\<open>inf\<close>. The negative zero is the
  value \<open>PNegZero\<close>; its sign shows only in text, and the sign of a zero that an
  operation returns is not tracked. NaN is not a value here: no operation of the script
  yields it from finite operands.

  Strings are byte lists; the three non-ASCII characters of the script's literals are
  written as their UTF-8 bytes.
\<close>

datatype pyval = PInt int | PFloat real | PNegZero | PNone

datatype exn =
  ZeroDivisionError string | ValueError string | TypeError string
| OverflowError string | KeyError string

definition quoted :: "string \<Rightarrow> string" where
  "quoted s = [CHR 0x27] @ s @ [CHR 0x27]"

text \<open>
  \<^verbatim>\<open>str(e)\<close> of an exception raised with one string argument; a \<^verbatim>\<open>KeyError\<close> shows
  the missing key between quotes.
\<close>

fun str_exn :: "exn \<Rightarrow> string" where
  "str_exn (ZeroDivisionError m) = m"
| "str_exn (ValueError m) = m"
| "str_exn (TypeError m) = m"
| "str_exn (OverflowError m) = m"
| "str_exn (KeyError k) = quoted k"

datatype outcome = Success pyval | Failure string

definition bindE :: "exn + 'a \<Rightarrow> ('a \<Rightarrow> exn + 'b) \<Rightarrow> exn + 'b" where
  "bindE m f = (case m of Inl e \<Rightarrow> Inl e | Inr v \<Rightarrow> f v)"

fun type_name :: "pyval \<Rightarrow> string" where
  "type_name (PInt _) = ''int''"
| "type_name (PFloat _) = ''float''"
| "type_name PNegZero = ''float''"
| "type_name PNone = ''NoneType''"

fun as_real :: "pyval \<Rightarrow> real option" where
  "as_real (PInt i) = Some (of_int i)"
| "as_real (PFloat r) = Some r"
| "as_real PNegZero = Some 0"
| "as_real PNone = None"

text \<open>
  The first magnitude that rounds to no finite float: the largest finite binary64
  number is \<open>2 ^ 1024 - 2 ^ 971\<close>, and half a unit in its last place beyond it the
  nearest float is an infinity.
\<close>

definition float_overflow :: real where
  "float_overflow = 2 ^ 1024 - 2 ^ 970"

definition overflows :: "real \<Rightarrow> bool" where
  "overflows r = (float_overflow \<le> \<bar>r\<bar>)"

text \<open>
  An int is converted to a float wherever it meets a float or a function of the
  \<^verbatim>\<open>math\<close> module; the conversion raises when the int is beyond the range.
\<close>

fun int_too_large :: "pyval \<Rightarrow> bool" where
  "int_too_large (PInt i) = overflows (of_int i)"
| "int_too_large _ = False"

definition conversion_error :: exn where
  "conversion_error = OverflowError ''int too large to convert to float''"

text \<open>\<^verbatim>\<open>isinstance(a, int)\<close>.\<close>

fun isinstance_int :: "pyval \<Rightarrow> bool" where
  "isinstance_int (PInt _) = True"
| "isinstance_int _ = False"

text \<open>\<^verbatim>\<open>isinstance(a, float)\<close>.\<close>

fun isinstance_float :: "pyval \<Rightarrow> bool" where
  "isinstance_float (PFloat _) = True"
| "isinstance_float PNegZero = True"
| "isinstance_float _ = False"

section \<open>Python operators on these values\<close>

definition binop_type_error :: "string \<Rightarrow> pyval \<Rightarrow> pyval \<Rightarrow> exn" where
  "binop_type_error opsym a b =
     TypeError (''unsupported operand type(s) for '' @ opsym @ '': '' @
                quoted (type_name a) @ '' and '' @ quoted (type_name b))"

definition compare_type_error :: "string \<Rightarrow> pyval \<Rightarrow> pyval \<Rightarrow> exn" where
  "compare_type_error opsym a b =
     TypeError (quoted opsym @ '' not supported between instances of '' @
                quoted (type_name a) @ '' and '' @ quoted (type_name b))"

text \<open>
  \<^verbatim>\<open>a + b\<close>, \<^verbatim>\<open>a - b\<close>, \<^verbatim>\<open>a * b\<close>: exact on two ints, float as soon as one operand
  is, the other one being converted.
\<close>

definition py_arith ::
  "string \<Rightarrow> (int \<Rightarrow> int \<Rightarrow> int) \<Rightarrow> (real \<Rightarrow> real \<Rightarrow> real) \<Rightarrow> pyval \<Rightarrow> pyval \<Rightarrow> exn + pyval" where
  "py_arith opsym fi fr a b =
     (case (a, b) of
        (PInt i, PInt j) \<Rightarrow> Inr (PInt (fi i j))
      | _ \<Rightarrow> (case (as_real a, as_real b) of
                (Some r, Some s) \<Rightarrow>
                  if int_too_large a \<or> int_too_large b then Inl conversion_error
                  else Inr (PFloat (fr r s))
              | _ \<Rightarrow> Inl (binop_type_error opsym a b)))"

definition py_add :: "pyval \<Rightarrow> pyval \<Rightarrow> exn + pyval" where
  "py_add = py_arith ''+'' (\<lambda>i j. i + j) (\<lambda>r s. r + s)"

definition py_sub :: "pyval \<Rightarrow> pyval \<Rightarrow> exn + pyval" where
  "py_sub = py_arith ''-'' (\<lambda>i j. i - j) (\<lambda>r s. r - s)"

definition py_mul :: "pyval \<Rightarrow> pyval \<Rightarrow> exn + pyval" where
  "py_mul = py_arith ''*'' (\<lambda>i j. i * j) (\<lambda>r s. r * s)"

text \<open>
  \<^verbatim>\<open>a / b\<close>: true division, always a float; a zero divisor raises. Two ints are
  divided as ints and only the quotient must fit the format; otherwise the int
  operand is converted first.
\<close>

definition py_truediv :: "pyval \<Rightarrow> pyval \<Rightarrow> exn + pyval" where
  "py_truediv a b =
     (case (as_real a, as_real b) of
        (Some r, Some s) \<Rightarrow>
          if isinstance_int a \<and> isinstance_int b then
            (if s = 0 then Inl (ZeroDivisionError ''division by zero'')
             else if overflows (r / s)
               then Inl (OverflowError ''integer division result too large for a float'')
             else Inr (PFloat (r / s)))
          else if int_too_large a \<or> int_too_large b then Inl conversion_error
          else if s = 0 then Inl (ZeroDivisionError ''float division by zero'')
          else Inr (PFloat (r / s))
      | _ \<Rightarrow> Inl (binop_type_error ''/'' a b))"

text \<open>\<^verbatim>\<open>a == b\<close> never raises; \<^verbatim>\<open>None\<close> equals only itself.\<close>

definition py_eq :: "pyval \<Rightarrow> pyval \<Rightarrow> bool" where
  "py_eq a b =
     (case (as_real a, as_real b) of
        (Some r, Some s) \<Rightarrow> r = s
      | (None, None) \<Rightarrow> True
      | _ \<Rightarrow> False)"

text \<open>The ordering comparisons raise \<^verbatim>\<open>TypeError\<close> on \<^verbatim>\<open>None\<close>.\<close>

definition py_compare ::
  "string \<Rightarrow> (real \<Rightarrow> real \<Rightarrow> bool) \<Rightarrow> pyval \<Rightarrow> pyval \<Rightarrow> exn + bool" where
  "py_compare opsym rel a b =
     (case (as_real a, as_real b) of
        (Some r, Some s) \<Rightarrow> Inr (rel r s)
      | _ \<Rightarrow> Inl (compare_type_error opsym a b))"

definition py_lt :: "pyval \<Rightarrow> pyval \<Rightarrow> exn + bool" where
  "py_lt = py_compare ''<'' (\<lambda>r s. r < s)"

definition py_le :: "pyval \<Rightarrow> pyval \<Rightarrow> exn + bool" where
  "py_le = py_compare ''<='' (\<lambda>r s. r \<le> s)"

definition py_ge :: "pyval \<Rightarrow> pyval \<Rightarrow> exn + bool" where
  "py_ge = py_compare ''>='' (\<lambda>r s. r \<ge> s)"

text \<open>\<^verbatim>\<open>abs(a)\<close> keeps the type of its operand.\<close>

fun py_abs :: "pyval \<Rightarrow> exn + pyval" where
  "py_abs (PInt i) = Inr (PInt \<bar>i\<bar>)"
| "py_abs (PFloat r) = Inr (PFloat \<bar>r\<bar>)"
| "py_abs PNegZero = Inr (PFloat 0)"
| "py_abs PNone = Inl (TypeError (''bad operand type for abs(): '' @ quoted ''NoneType''))"

section \<open>The \<^verbatim>\<open>math\<close> module\<close>

text \<open>
  Every function of the module converts its argument to a float first and raises
  \<^verbatim>\<open>TypeError\<close> on \<^verbatim>\<open>None\<close>; outside its real domain it raises
  \<^verbatim>\<open>ValueError("math domain error")\<close>, and \<^verbatim>\<open>pow\<close> and \<^verbatim>\<open>exp\<close> raise
  \<^verbatim>\<open>OverflowError("math range error")\<close> when the result leaves the range of the
  format (a result that underflows is returned, as zero, without an error).
\<close>

definition math_arg :: "pyval \<Rightarrow> exn + real" where
  "math_arg a =
     (case as_real a of
        Some r \<Rightarrow> if int_too_large a then Inl conversion_error else Inr r
      | None \<Rightarrow> Inl (TypeError ''must be real number, not NoneType''))"

definition domain_error :: exn where
  "domain_error = ValueError ''math domain error''"

definition range_error :: exn where
  "range_error = OverflowError ''math range error''"

definition in_range :: "real \<Rightarrow> exn + pyval" where
  "in_range v = (if overflows v then Inl range_error else Inr (PFloat v))"

definition is_integral :: "real \<Rightarrow> bool" where
  "is_integral r = (of_int \<lfloor>r\<rfloor> = r)"

text \<open>
  \<^verbatim>\<open>math.pow(x, y)\<close>: a negative base with a non-integer exponent and a zero base with a
  negative exponent are domain errors; \<^verbatim>\<open>pow(x, 0.0)\<close> is 1 for every \<^verbatim>\<open>x\<close>.
\<close>

definition math_pow :: "pyval \<Rightarrow> pyval \<Rightarrow> exn + pyval" where
  "math_pow a b =
     bindE (math_arg a) (\<lambda>x. bindE (math_arg b) (\<lambda>y.
       if x = 0 then
         (if y < 0 then Inl domain_error
          else if y = 0 then Inr (PFloat 1)
          else Inr (PFloat 0))
       else if x < 0 then
         (if is_integral y then in_range (x powi \<lfloor>y\<rfloor>) else Inl domain_error)
       else in_range (x powr y)))"

definition math_sqrt :: "pyval \<Rightarrow> exn + pyval" where
  "math_sqrt a =
     bindE (math_arg a) (\<lambda>x. if x < 0 then Inl domain_error else Inr (PFloat (sqrt x)))"

definition math_exp :: "pyval \<Rightarrow> exn + pyval" where
  "math_exp a = bindE (math_arg a) (\<lambda>x. in_range (exp x))"

text \<open>\<^verbatim>\<open>math.log(x)\<close> and \<^verbatim>\<open>math.log10(x)\<close>.\<close>

definition math_log :: "pyval \<Rightarrow> exn + pyval" where
  "math_log a =
     bindE (math_arg a) (\<lambda>x. if x \<le> 0 then Inl domain_error else Inr (PFloat (ln x)))"

definition math_log10 :: "pyval \<Rightarrow> exn + pyval" where
  "math_log10 a =
     bindE (math_arg a) (\<lambda>x. if x \<le> 0 then Inl domain_error else Inr (PFloat (log 10 x)))"

text \<open>\<^verbatim>\<open>math.log(x, base)\<close> is \<^verbatim>\<open>log(x) / log(base)\<close>.\<close>

definition math_log_base :: "pyval \<Rightarrow> pyval \<Rightarrow> exn + pyval" where
  "math_log_base a b =
     bindE (math_arg a) (\<lambda>x. bindE (math_arg b) (\<lambda>base.
       if x \<le> 0 \<or> base \<le> 0 then Inl domain_error
       else if ln base = 0 then Inl (ZeroDivisionError ''division by zero'')
       else Inr (PFloat (ln x / ln base))))"

definition math_sin :: "pyval \<Rightarrow> exn + pyval" where
  "math_sin a = bindE (math_arg a) (\<lambda>x. Inr (PFloat (sin x)))"

definition math_cos :: "pyval \<Rightarrow> exn + pyval" where
  "math_cos a = bindE (math_arg a) (\<lambda>x. Inr (PFloat (cos x)))"

definition math_tan :: "pyval \<Rightarrow> exn + pyval" where
  "math_tan a = bindE (math_arg a) (\<lambda>x. Inr (PFloat (tan x)))"

definition math_asin :: "pyval \<Rightarrow> exn + pyval" where
  "math_asin a =
     bindE (math_arg a) (\<lambda>x.
       if x < -1 \<or> 1 < x then Inl domain_error else Inr (PFloat (arcsin x)))"

definition math_acos :: "pyval \<Rightarrow> exn + pyval" where
  "math_acos a =
     bindE (math_arg a) (\<lambda>x.
       if x < -1 \<or> 1 < x then Inl domain_error else Inr (PFloat (arccos x)))"

definition math_atan :: "pyval \<Rightarrow> exn + pyval" where
  "math_atan a = bindE (math_arg a) (\<lambda>x. Inr (PFloat (arctan x)))"

text \<open>\<^verbatim>\<open>math.radians(x)\<close> and \<^verbatim>\<open>math.degrees(x)\<close>.\<close>

definition math_radians :: "pyval \<Rightarrow> exn + pyval" where
  "math_radians a = bindE (math_arg a) (\<lambda>x. Inr (PFloat (x * (pi / 180))))"

definition math_degrees :: "pyval \<Rightarrow> exn + pyval" where
  "math_degrees a = bindE (math_arg a) (\<lambda>x. Inr (PFloat (x * (180 / pi))))"

text \<open>\<^verbatim>\<open>math.factorial(n)\<close>: integers only, negative ones rejected.\<close>

fun math_factorial :: "pyval \<Rightarrow> exn + pyval" where
  "math_factorial (PInt n) =
     (if n < 0 then Inl (ValueError ''factorial() not defined for negative values'')
      else Inr (PInt (int (fact (nat n)))))"
| "math_factorial (PFloat _) =
     Inl (TypeError (quoted ''float'' @ '' object cannot be interpreted as an integer''))"
| "math_factorial PNegZero =
     Inl (TypeError (quoted ''float'' @ '' object cannot be interpreted as an integer''))"
| "math_factorial PNone =
     Inl (TypeError (quoted ''NoneType'' @ '' object cannot be interpreted as an integer''))"

section \<open>Angle conversion\<close>

definition to_radians :: "pyval \<Rightarrow> string \<Rightarrow> exn + pyval" where
  "to_radians x angle_mode = (if angle_mode = ''Degrees'' then math_radians x else Inr x)"

definition from_radians :: "pyval \<Rightarrow> string \<Rightarrow> exn + pyval" where
  "from_radians x angle_mode = (if angle_mode = ''Degrees'' then math_degrees x else Inr x)"

section \<open>The computation behind the Calculate button\<close>

text \<open>The operation lists offered for each category (the dictionary \<^verbatim>\<open>ops\<close>).\<close>

definition ops :: "(string \<times> string list) list" where
  "ops =
     [(''Basic'', [''Add'', ''Subtract'', ''Multiply'', ''Divide'']),
      (''Advanced'', [''Power (x^y)'', ''Square Root'', ''Exponential (e^x)'',
                     ''Natural Log (ln)'', ''Log Base 10'', ''Log (Custom Base)'']),
      (''Trigonometry'', [''sin'', ''cos'', ''tan'']),
      (''Inverse Trig'', [''arcsin'', ''arccos'', ''arctan'']),
      (''Misc'', [''Absolute'', ''Factorial'', ''Percentage (x of y)''])]"

definition offered :: "string \<Rightarrow> string \<Rightarrow> bool" where
  "offered grp opn = (case map_of ops grp of None \<Rightarrow> False | Some l \<Rightarrow> opn \<in> set l)"

definition msg_div_zero :: string where
  "msg_div_zero = ''Division by zero is undefined.''"

definition msg_sqrt :: string where
  "msg_sqrt = ''Square root domain error: x must be '' @ [CHR 0xE2, CHR 0x89, CHR 0xA5] @ '' 0.''"

definition msg_log :: string where
  "msg_log = ''Log domain error: x must be > 0.''"

definition msg_log_base :: string where
  "msg_log_base = ''For log_b(x): x>0, b>0, b'' @ [CHR 0xE2, CHR 0x89, CHR 0xA0] @ ''1.''"

definition msg_inverse :: string where
  "msg_inverse = ''Domain error: input must be in [-1, 1].''"

definition msg_factorial :: string where
  "msg_factorial = ''Factorial requires a non-negative integer.''"

text \<open>
  The body of the \<^verbatim>\<open>try\<close> block up to the assignment of \<^verbatim>\<open>result\<close>: \<open>Inl\<close> is the
  exception that leaves it, \<open>Inr\<close> the value of \<^verbatim>\<open>result\<close>, which is still \<^verbatim>\<open>None\<close> when
  no branch of the chain matches.
\<close>

definition compute ::
  "string \<Rightarrow> string \<Rightarrow> pyval \<Rightarrow> pyval \<Rightarrow> pyval \<Rightarrow> string \<Rightarrow> exn + pyval" where
  "compute grp opn x y base angle_mode =
     (if grp = ''Basic'' then
        (if opn = ''Add'' then py_add x y
         else if opn = ''Subtract'' then py_sub x y
         else if opn = ''Multiply'' then py_mul x y
         else if opn = ''Divide'' then
           (if py_eq y (PInt 0) then Inl (ZeroDivisionError msg_div_zero)
            else py_truediv x y)
         else Inr PNone)
      else if grp = ''Advanced'' then
        (if opn = ''Power (x^y)'' then math_pow x y
         else if opn = ''Square Root'' then
           bindE (py_lt x (PInt 0)) (\<lambda>neg.
             if neg then Inl (ValueError msg_sqrt) else math_sqrt x)
         else if opn = ''Exponential (e^x)'' then math_exp x
         else if opn = ''Natural Log (ln)'' then
           bindE (py_le x (PInt 0)) (\<lambda>bad.
             if bad then Inl (ValueError msg_log) else math_log x)
         else if opn = ''Log Base 10'' then
           bindE (py_le x (PInt 0)) (\<lambda>bad.
             if bad then Inl (ValueError msg_log) else math_log10 x)
         else if opn = ''Log (Custom Base)'' then
           bindE (py_le x (PInt 0)) (\<lambda>bad_x.
             if bad_x then Inl (ValueError msg_log_base)
             else if base = PNone then Inl (ValueError msg_log_base)
             else bindE (py_le base (PInt 0)) (\<lambda>bad_base.
               if bad_base then Inl (ValueError msg_log_base)
               else if py_eq base (PInt 1) then Inl (ValueError msg_log_base)
               else math_log_base x base))
         else Inr PNone)
      else if grp = ''Trigonometry'' then
        bindE (to_radians x angle_mode) (\<lambda>r.
          if opn = ''sin'' then math_sin r
          else if opn = ''cos'' then math_cos r
          else if opn = ''tan'' then math_tan r
          else Inr PNone)
      else if grp = ''Inverse Trig'' then
        bindE (if opn \<in> set [''arcsin'', ''arccos'']
               then bindE (py_le (PFloat (- 1)) x) (\<lambda>lo.
                      if lo then bindE (py_le x (PFloat 1)) (\<lambda>hi. Inr (\<not> hi))
                      else Inr True)
               else Inr False) (\<lambda>outside.
          if outside then Inl (ValueError msg_inverse)
          else if opn = ''arcsin'' then bindE (math_asin x) (\<lambda>v. from_radians v angle_mode)
          else if opn = ''arccos'' then bindE (math_acos x) (\<lambda>v. from_radians v angle_mode)
          else if opn = ''arctan'' then bindE (math_atan x) (\<lambda>v. from_radians v angle_mode)
          else Inr PNone)
      else if grp = ''Misc'' then
        (if opn = ''Absolute'' then py_abs x
         else if opn = ''Factorial'' then
           bindE (if isinstance_int x then py_ge x (PInt 0) else Inr False) (\<lambda>ok.
             if \<not> ok then Inl (ValueError msg_factorial) else math_factorial x)
         else if opn = ''Percentage (x of y)'' then
           bindE (py_truediv x (PFloat 100)) (\<lambda>q. py_mul q y)
         else Inr PNone)
      else Inr PNone)"

text \<open>
  What the handler holds when the \<^verbatim>\<open>try\<close> statement is over: \<^verbatim>\<open>result\<close> on the normal
  path, \<^verbatim>\<open>error = str(e)\<close> when \<^verbatim>\<open>except Exception\<close> caught something.
\<close>

definition evaluate ::
  "string \<Rightarrow> string \<Rightarrow> pyval \<Rightarrow> pyval \<Rightarrow> pyval \<Rightarrow> string \<Rightarrow> outcome" where
  "evaluate grp opn x y base angle_mode =
     (case compute grp opn x y base angle_mode of
        Inr result \<Rightarrow> Success result
      | Inl e \<Rightarrow> Failure (str_exn e))"

section \<open>Rendering values as text\<close>

definition digit_char :: "nat \<Rightarrow> char" where
  "digit_char d = ''0123456789'' ! d"

text \<open>The decimal digits of a natural number, most significant first.\<close>

fun str_nat :: "nat \<Rightarrow> string" where
  "str_nat n = (if n < 10 then [digit_char n] else str_nat (n div 10) @ [digit_char (n mod 10)])"

declare str_nat.simps [simp del]

text \<open>\<^verbatim>\<open>str(i)\<close> of an int.\<close>

definition str_int :: "int \<Rightarrow> string" where
  "str_int i = (if i < 0 then CHR ''-'' # str_nat (nat (- i)) else str_nat (nat i))"

text \<open>
  \<^verbatim>\<open>str(v)\<close>. The text of a float (its shortest round-trip representation) is a
  property of the binary format, which the real numbers do not have: it is the
  parameter \<open>repr_float\<close>.
\<close>

fun py_str :: "(real \<Rightarrow> string) \<Rightarrow> pyval \<Rightarrow> string" where
  "py_str repr_float (PInt i) = str_int i"
| "py_str repr_float (PFloat r) = repr_float r"
| "py_str repr_float PNegZero = ''-0.0''"
| "py_str repr_float PNone = ''None''"

text \<open>
  The conversion of an int to text is limited: \<^verbatim>\<open>str(i)\<close> raises \<^verbatim>\<open>ValueError\<close>
  when \<open>i\<close> has more than 4300 decimal digits (\<^verbatim>\<open>sys.get_int_max_str_digits()\<close>).
  \<open>py_str\<close> is the text; \<open>str_checked\<close> is the call, with the limit.
\<close>

definition int_max_str_digits :: nat where
  "int_max_str_digits = 4300"

definition msg_str_digits :: string where
  "msg_str_digits = ''Exceeds the limit (4300 digits) for integer string conversion; '' @
                    ''use sys.set_int_max_str_digits() to increase the limit''"

fun str_checked :: "(real \<Rightarrow> string) \<Rightarrow> pyval \<Rightarrow> exn + string" where
  "str_checked repr_float (PInt i) =
     (if int_max_str_digits < length (str_nat (nat \<bar>i\<bar>)) then Inl (ValueError msg_str_digits)
      else Inr (str_int i))"
| "str_checked repr_float v = Inr (py_str repr_float v)"

text \<open>Rounding to the nearest integer, a tie going to the even neighbour.\<close>

definition round_half_even :: "real \<Rightarrow> int" where
  "round_half_even t =
     (let f = \<lfloor>t\<rfloor>; d = t - of_int f
      in if d < 1 / 2 then f
         else if 1 / 2 < d then f + 1
         else if even f then f else f + 1)"

definition zero_pad :: "nat \<Rightarrow> string \<Rightarrow> string" where
  "zero_pad p s = replicate (p - length s) (CHR ''0'') @ s"

text \<open>
  The presentation type \<^verbatim>\<open>f\<close> with precision \<open>p\<close>: the sign, the integer part, and
  when \<open>p > 0\<close> a point followed by \<open>p\<close> digits.
\<close>

definition fixed_point :: "real \<Rightarrow> nat \<Rightarrow> string" where
  "fixed_point r p =
     (let n = nat (round_half_even (\<bar>r\<bar> * 10 ^ p))
      in (if r < 0 then ''-'' else []) @ str_nat (n div 10 ^ p) @
         (if p = 0 then [] else CHR ''.'' # zero_pad p (str_nat (n mod 10 ^ p))))"

text \<open>
  \<^verbatim>\<open>f"{x:.{precision}f}"\<close>: numbers are formatted as floats, an infinity as \<^verbatim>\<open>inf\<close> or
  \<^verbatim>\<open>-inf\<close>, the negative zero with its sign; \<^verbatim>\<open>None\<close> has no such format. The
  precision is the slider's value, an integer from 0 to 12, so it is a \<^typ>\<open>nat\<close> here.
\<close>

definition format_float :: "real \<Rightarrow> nat \<Rightarrow> string" where
  "format_float r p =
     (if overflows r then (if r < 0 then ''-inf'' else ''inf'') else fixed_point r p)"

fun py_format_f :: "pyval \<Rightarrow> nat \<Rightarrow> exn + string" where
  "py_format_f (PInt i) p =
     (if overflows (of_int i) then Inl conversion_error else Inr (format_float (of_int i) p))"
| "py_format_f (PFloat r) p = Inr (format_float r p)"
| "py_format_f PNegZero p = Inr (''-'' @ fixed_point 0 p)"
| "py_format_f PNone p =
     Inl (TypeError ''unsupported format string passed to NoneType.__format__'')"

text \<open>
  \<^verbatim>\<open>format_number\<close>. The first \<^verbatim>\<open>str(x)\<close> is outside the \<^verbatim>\<open>try\<close> statement and the
  second is in its \<^verbatim>\<open>except\<close> clause, so what either raises leaves the function.
\<close>

definition format_number :: "(real \<Rightarrow> string) \<Rightarrow> pyval \<Rightarrow> nat \<Rightarrow> exn + string" where
  "format_number repr_float x precision =
     (if isinstance_int x then str_checked repr_float x
      else (case py_format_f x precision of
              Inr s \<Rightarrow> Inr s
            | Inl e \<Rightarrow> str_checked repr_float x))"

text \<open>Reading a digit string back, to state that a rendering is exact.\<close>

definition is_digit :: "char \<Rightarrow> bool" where
  "is_digit c = (c \<in> set ''0123456789'')"

definition digit_value :: "char \<Rightarrow> nat" where
  "digit_value c = of_char c - 48"

definition digits_value :: "string \<Rightarrow> nat" where
  "digits_value s = foldl (\<lambda>a c. 10 * a + digit_value c) 0 s"

section \<open>The history\<close>

text \<open>
  One dictionary of \<^verbatim>\<open>st.session_state.history\<close>. The field \<^verbatim>\<open>inputs\<close> is itself a
  dictionary of the three operands and the angle mode. \<^verbatim>\<open>error\<close> is a string or
  \<^verbatim>\<open>None\<close>; \<^verbatim>\<open>result\<close> is a value, \<^verbatim>\<open>None\<close> included.
\<close>

record inputs =
  inp_x :: pyval
  inp_y :: pyval
  inp_base :: pyval
  inp_angle_mode :: string

record entry =
  e_time :: string
  e_operation :: string
  e_inputs :: inputs
  e_result :: pyval
  e_error :: "string option"

text \<open>
  \<^verbatim>\<open>init_state\<close>: the key \<^verbatim>\<open>history\<close> of the session state is created empty when it is
  missing (\<open>None\<close>).
\<close>

definition init_state :: "entry list option \<Rightarrow> entry list" where
  "init_state ss = (case ss of None \<Rightarrow> [] | Some h \<Rightarrow> h)"

text \<open>\<^verbatim>\<open>add_history\<close>; \<open>now\<close> is the formatted reading of the clock.\<close>

definition add_history ::
  "entry list \<Rightarrow> string \<Rightarrow> string \<Rightarrow> inputs \<Rightarrow> pyval \<Rightarrow> string option \<Rightarrow> entry list" where
  "add_history history now opn inps result error =
     history @ [\<lparr>e_time = now, e_operation = opn, e_inputs = inps,
                  e_result = result, e_error = error\<rparr>]"

text \<open>What a button handler shows.\<close>

datatype ui = StSuccess string | StError string | StCode string | StInfo string

definition clear_history :: "entry list \<Rightarrow> entry list \<times> ui" where
  "clear_history history = ([], StSuccess ''History cleared.'')"

text \<open>
  The handler of "Copy last result". Its \<^verbatim>\<open>str(last["result"])\<close> is the text of the
  result: the digit limit cannot be met here, because an attempt that records an int
  beyond the limit records an error entry right after it (see \<open>calculate\<close>), so such
  a result is never in the last entry.
\<close>

definition copy_last_result :: "(real \<Rightarrow> string) \<Rightarrow> entry list \<Rightarrow> ui" where
  "copy_last_result repr_float history =
     (if history \<noteq> [] then
        (let l = last history
         in if e_error l = None \<and> e_result l \<noteq> PNone
            then StCode (py_str repr_float (e_result l))
            else StInfo ''Last entry has no result to copy.'')
      else StInfo ''No history yet.'')"

text \<open>
  The values of the widgets in one run of the script, and the clock: \<open>w_now\<close> is its
  first reading in the handler and \<open>w_now_again\<close> the second, which is taken only
  when both calls of \<^verbatim>\<open>add_history\<close> run.
\<close>

record widgets =
  w_angle_mode :: string
  w_precision :: nat
  w_group :: string
  w_op :: string
  w_x :: pyval
  w_y :: pyval
  w_base :: pyval
  w_now :: string
  w_now_again :: string

text \<open>
  \<^verbatim>\<open>ops[group]\<close>, evaluated when the operation box is built: a category that is not
  a key of \<^verbatim>\<open>ops\<close> raises \<^verbatim>\<open>KeyError\<close>, which nothing catches, so the script stops
  there, before the Calculate handler.
\<close>

definition ops_lookup :: "string \<Rightarrow> exn + string list" where
  "ops_lookup grp = (case map_of ops grp of None \<Rightarrow> Inl (KeyError grp) | Some l \<Rightarrow> Inr l)"

definition op_label :: "string \<Rightarrow> string \<Rightarrow> string" where
  "op_label grp opn = grp @ '' '' @ [CHR 0xE2, CHR 0x86, CHR 0x92] @ '' '' @ opn"

definition inputs_of :: "widgets \<Rightarrow> inputs" where
  "inputs_of w = \<lparr>inp_x = w_x w, inp_y = w_y w, inp_base = w_base w,
                  inp_angle_mode = w_angle_mode w\<rparr>"

text \<open>
  The handler of the Calculate button. \<^verbatim>\<open>add_history\<close> and
  \<^verbatim>\<open>st.success(... format_number(result, precision) ...)\<close> are both inside the \<^verbatim>\<open>try\<close>
  block, in this order: when \<^verbatim>\<open>format_number\<close> raises, the entry of the result is
  already recorded and the \<^verbatim>\<open>except\<close> clause records a second entry, with the error
  and with \<^verbatim>\<open>result\<close> at its default \<^verbatim>\<open>None\<close>.
\<close>

definition calculate :: "(real \<Rightarrow> string) \<Rightarrow> widgets \<Rightarrow> entry list \<Rightarrow> entry list \<times> ui" where
  "calculate repr_float w history =
     (case evaluate (w_group w) (w_op w) (w_x w) (w_y w) (w_base w) (w_angle_mode w) of
        Success result \<Rightarrow>
          (let recorded = add_history history (w_now w) (op_label (w_group w) (w_op w))
                            (inputs_of w) result None
           in case format_number repr_float result (w_precision w) of
                Inr s \<Rightarrow> (recorded, StSuccess (''Result: **'' @ s @ ''**''))
              | Inl e \<Rightarrow>
                  (add_history recorded (w_now_again w) (op_label (w_group w) (w_op w))
                     (inputs_of w) PNone (Some (str_exn e)),
                   StError (''Error: '' @ str_exn e)))
      | Failure error \<Rightarrow>
          (add_history history (w_now w) (op_label (w_group w) (w_op w)) (inputs_of w) PNone
             (Some error),
           StError (''Error: '' @ error)))"

text \<open>
  One run of the script: at most one button is pressed, and the list is what the
  handler of that button shows. The two sidebar handlers come first in the script;
  the Calculate handler comes after \<^verbatim>\<open>ops[group]\<close> and is not reached when that
  lookup raises.
\<close>

datatype button = ClearHistory | CopyLastResult | Calculate | NoButton

definition script_run ::
  "(real \<Rightarrow> string) \<Rightarrow> widgets \<Rightarrow> button \<Rightarrow> entry list option \<Rightarrow> entry list \<times> ui list" where
  "script_run repr_float w b ss =
     (let history = init_state ss
      in case b of
           ClearHistory \<Rightarrow> (let (h, u) = clear_history history in (h, [u]))
         | CopyLastResult \<Rightarrow> (history, [copy_last_result repr_float history])
         | Calculate \<Rightarrow>
             (case ops_lookup (w_group w) of
                Inl e \<Rightarrow> (history, [])
              | Inr l \<Rightarrow> (let (h, u) = calculate repr_float w history in (h, [u])))
         | NoButton \<Rightarrow> (history, []))"

text \<open>A sequence of runs of the script.\<close>

fun runs :: "(real \<Rightarrow> string) \<Rightarrow> (widgets \<times> button) list \<Rightarrow> entry list \<Rightarrow> entry list" where
  "runs repr_float [] history = history"
| "runs repr_float ((w, b) # rest) history =
     runs repr_float rest (fst (script_run repr_float w b (Some history)))"

text \<open>The entry a Calculate attempt records first.\<close>

definition entry_of :: "widgets \<Rightarrow> entry" where
  "entry_of w =
     (case evaluate (w_group w) (w_op w) (w_x w) (w_y w) (w_base w) (w_angle_mode w) of
        Success result \<Rightarrow>
          \<lparr>e_time = w_now w, e_operation = op_label (w_group w) (w_op w),
           e_inputs = inputs_of w, e_result = result, e_error = None\<rparr>
      | Failure error \<Rightarrow>
          \<lparr>e_time = w_now w, e_operation = op_label (w_group w) (w_op w),
           e_inputs = inputs_of w, e_result = PNone, e_error = Some error\<rparr>)"

text \<open>The entry the \<^verbatim>\<open>except\<close> clause records when \<^verbatim>\<open>add_history\<close> has already run.\<close>

definition second_entry :: "widgets \<Rightarrow> exn \<Rightarrow> entry" where
  "second_entry w e =
     \<lparr>e_time = w_now_again w, e_operation = op_label (w_group w) (w_op w),
      e_inputs = inputs_of w, e_result = PNone, e_error = Some (str_exn e)\<rparr>"

text \<open>
  Three sample attempts: one that succeeds, one that fails, and the factorial of 3000,
  a value the Factorial widget accepts (it has a minimum and no maximum).
\<close>

definition sample_ok :: widgets where
  "sample_ok =
     \<lparr>w_angle_mode = ''Degrees'', w_precision = 6, w_group = ''Basic'', w_op = ''Divide'',
      w_x = PFloat 6, w_y = PFloat 4, w_base = PNone, w_now = ''2024-01-01 10:00:00'',
      w_now_again = ''2024-01-01 10:00:00''\<rparr>"

definition sample_bad :: widgets where
  "sample_bad =
     \<lparr>w_angle_mode = ''Degrees'', w_precision = 6, w_group = ''Basic'', w_op = ''Divide'',
      w_x = PFloat 6, w_y = PFloat 0, w_base = PNone, w_now = ''2024-01-01 10:00:05'',
      w_now_again = ''2024-01-01 10:00:05''\<rparr>"

definition sample_big :: widgets where
  "sample_big =
     \<lparr>w_angle_mode = ''Degrees'', w_precision = 6, w_group = ''Misc'', w_op = ''Factorial'',
      w_x = PInt 3000, w_y = PNone, w_base = PNone, w_now = ''2024-01-01 10:00:10'',
      w_now_again = ''2024-01-01 10:00:11''\<rparr>"

section \<open>The sine round trip with binary64 rounding\<close>

text \<open>
  The definitions so far take every operation as exact. How close arcsin of sin comes
  to its argument is a question about rounding, so for this one pipeline the same
  source lines (\<^verbatim>\<open>to_radians\<close>, \<^verbatim>\<open>math.sin\<close>, \<^verbatim>\<open>math.asin\<close>, \<^verbatim>\<open>from_radians\<close> in Degrees
  mode) are written a second time, each result rounded to binary64. The library
  functions are taken as correctly rounded.
\<close>

text \<open>
  \<open>fl\<close> rounds a real to the nearest binary64 number, a tie going to the even
  neighbour: the spacing of the format around \<open>r\<close> is \<open>2\<close> to the power
  \<open>\<lfloor>log 2 \<bar>r\<bar>\<rfloor> - 52\<close> (normal range).
\<close>

definition fl :: "real \<Rightarrow> real" where
  "fl r = (if r = 0 then 0
           else (let u = 2 powr (of_int \<lfloor>log 2 \<bar>r\<bar>\<rfloor> - 52)
                 in of_int (round_half_even (r / u)) * u))"

text \<open>
  The constants of \<^verbatim>\<open>math.radians\<close> and \<^verbatim>\<open>math.degrees\<close>, computed in binary64 from the
  binary64 value of \<open>\<pi>\<close>, and the four operations of the round trip with the rounding
  of each result.
\<close>

definition deg_to_rad :: real where
  "deg_to_rad = fl (fl pi / 180)"

definition rad_to_deg :: real where
  "rad_to_deg = fl (180 / fl pi)"

definition radians_fl :: "real \<Rightarrow> real" where
  "radians_fl x = fl (x * deg_to_rad)"

definition degrees_fl :: "real \<Rightarrow> real" where
  "degrees_fl x = fl (x * rad_to_deg)"

definition sin_fl :: "real \<Rightarrow> real" where
  "sin_fl r = fl (sin r)"

definition asin_fl :: "real \<Rightarrow> real" where
  "asin_fl v = fl (arcsin v)"

text \<open>
  The two evaluations of the round trip: Trigonometry / sin and Inverse Trig / arcsin
  on float operands in Degrees mode (\<open>Inl\<close> is the message of the domain Failure).
\<close>

definition sin_degrees_fl :: "real \<Rightarrow> real" where
  "sin_degrees_fl x = sin_fl (radians_fl x)"

definition arcsin_degrees_fl :: "real \<Rightarrow> string + real" where
  "arcsin_degrees_fl v =
     (if \<not> (- 1 \<le> v \<and> v \<le> 1) then Inl msg_inverse else Inr (degrees_fl (asin_fl v)))"

text \<open>An angle just below 90 degrees; it is a binary64 number.\<close>

definition near_ninety :: real where
  "near_ninety = 90 - 1 / 2 ^ 23"

section \<open>Division\<close>

lemma evaluate_divide:
  "evaluate ''Basic'' ''Divide'' (PFloat x) (PFloat y) base angle_mode =
     (if y = 0 then Failure msg_div_zero else Success (PFloat (x / y)))"
  by (simp add: evaluate_def compute_def py_eq_def py_truediv_def)

text \<open>
  Claim C1. For all real operands \<open>x\<close> and \<open>y\<close>, Basic / Divide gives \<open>Success (x / y)\<close>
  when \<open>y \<noteq> 0\<close>, and when \<open>y = 0\<close> it gives the Failure whose message is exactly
  "Division by zero is undefined."; in particular dividing 5 by 0 is that Failure.
\<close>

theorem C1_divide:
  "(y \<noteq> 0 \<longrightarrow>
      evaluate ''Basic'' ''Divide'' (PFloat x) (PFloat y) base angle_mode = Success (PFloat (x / y)))
   \<and> (y = 0 \<longrightarrow>
      evaluate ''Basic'' ''Divide'' (PFloat x) (PFloat y) base angle_mode
        = Failure ''Division by zero is undefined.'')
   \<and> evaluate ''Basic'' ''Divide'' (PFloat 5) (PFloat 0) base angle_mode
        = Failure ''Division by zero is undefined.''"
  by (simp add: evaluate_divide msg_div_zero_def)

theorem C1_divide_witness:
  "evaluate ''Basic'' ''Divide'' (PFloat 6) (PFloat 4) PNone ''Degrees'' = Success (PFloat (3 / 2))
   \<and> evaluate ''Basic'' ''Divide'' (PFloat 6) (PFloat 0) PNone ''Degrees''
        = Failure ''Division by zero is undefined.''"
  using C1_divide [of 4 6 PNone "''Degrees''"] C1_divide [of 0 6 PNone "''Degrees''"]
  by simp

section \<open>Factorial\<close>

lemma evaluate_factorial:
  "evaluate ''Misc'' ''Factorial'' x y base angle_mode =
     (case x of
        PInt n \<Rightarrow> if 0 \<le> n then Success (PInt (int (fact (nat n)))) else Failure msg_factorial
      | _ \<Rightarrow> Failure msg_factorial)"
  by (cases x) (simp_all add: evaluate_def compute_def py_ge_def py_compare_def bindE_def)




section \<open>Logarithm to a custom base\<close>

lemma evaluate_log_base:
  "evaluate ''Advanced'' ''Log (Custom Base)'' (PFloat x) y (PFloat b) angle_mode =
     (if 0 < x \<and> 0 < b \<and> b \<noteq> 1 then Success (PFloat (log b x)) else Failure msg_log_base)"
  by (simp add: evaluate_def compute_def py_le_def py_compare_def bindE_def py_eq_def
      math_log_base_def math_arg_def log_def)

lemma log_2_8: "log 2 8 = (3::real)"
proof -
  have "log 2 (2 ^ 3) = (3::real)" by (simp only: log_pow_cancel)
  then show ?thesis by simp
qed

text \<open>
  Claim C3. For all real operands \<open>x\<close> and \<open>base\<close>, Advanced / Log (Custom Base) succeeds
  if and only if \<open>x > 0\<close>, \<open>base > 0\<close> and \<open>base \<noteq> 1\<close>, then with the logarithm of \<open>x\<close>
  to that base; otherwise it gives the Failure whose message is exactly the script's
  "For log_b(x): x>0, b>0, b/=1." text (with the not-equal sign). 8 to base 2 is
  \<open>Success 3\<close>; 8 to base 1 is that Failure.
\<close>

theorem C3_log_custom_base:
  "((\<exists>v. evaluate ''Advanced'' ''Log (Custom Base)'' (PFloat x) y (PFloat b) angle_mode = Success v)
      \<longleftrightarrow> 0 < x \<and> 0 < b \<and> b \<noteq> 1)
   \<and> (0 < x \<and> 0 < b \<and> b \<noteq> 1 \<longrightarrow>
        evaluate ''Advanced'' ''Log (Custom Base)'' (PFloat x) y (PFloat b) angle_mode
          = Success (PFloat (log b x)))
   \<and> (\<not> (0 < x \<and> 0 < b \<and> b \<noteq> 1) \<longrightarrow>
        evaluate ''Advanced'' ''Log (Custom Base)'' (PFloat x) y (PFloat b) angle_mode
          = Failure (''For log_b(x): x>0, b>0, b'' @ [CHR 0xE2, CHR 0x89, CHR 0xA0] @ ''1.''))
   \<and> evaluate ''Advanced'' ''Log (Custom Base)'' (PFloat 8) y (PFloat 2) angle_mode
        = Success (PFloat 3)
   \<and> evaluate ''Advanced'' ''Log (Custom Base)'' (PFloat 8) y (PFloat 1) angle_mode
        = Failure (''For log_b(x): x>0, b>0, b'' @ [CHR 0xE2, CHR 0x89, CHR 0xA0] @ ''1.'')"
  by (simp add: evaluate_log_base msg_log_base_def log_2_8)

theorem C3_log_custom_base_witness:
  "evaluate ''Advanced'' ''Log (Custom Base)'' (PFloat 8) PNone (PFloat 2) ''Degrees''
     = Success (PFloat (log 2 8))
   \<and> evaluate ''Advanced'' ''Log (Custom Base)'' (PFloat 8) PNone (PFloat (- 2)) ''Degrees''
     = Failure (''For log_b(x): x>0, b>0, b'' @ [CHR 0xE2, CHR 0x89, CHR 0xA0] @ ''1.'')"
  using C3_log_custom_base [of 8 PNone 2 "''Degrees''"]
        C3_log_custom_base [of 8 PNone "- 2" "''Degrees''"]
  by simp

section \<open>Power\<close>

lemma evaluate_power:
  "evaluate ''Advanced'' ''Power (x^y)'' (PFloat x) (PFloat y) base angle_mode =
     (if x = 0 then
        (if y < 0 then Failure ''math domain error''
         else if y = 0 then Success (PFloat 1) else Success (PFloat 0))
      else if x < 0 then
        (if is_integral y then
           (if overflows (x powi \<lfloor>y\<rfloor>) then Failure ''math range error''
            else Success (PFloat (x powi \<lfloor>y\<rfloor>)))
         else Failure ''math domain error'')
      else if overflows (x powr y) then Failure ''math range error''
      else Success (PFloat (x powr y)))"
  by (simp add: evaluate_def compute_def bindE_def math_pow_def math_arg_def domain_error_def
      range_error_def in_range_def)

lemma power_two_diff_less: "(2::real) ^ n - 2 ^ m < 2 ^ n"
  by simp

lemma power_two_diff_ge: "m < n \<Longrightarrow> (2::real) ^ m \<le> 2 ^ n - 2 ^ m"
proof -
  assume "m < n"
  then have "(2::real) ^ Suc m \<le> 2 ^ n" by (intro power_increasing) simp_all
  then show ?thesis by simp
qed

lemma float_overflow_less: "float_overflow < 2 ^ 1024"
  unfolding float_overflow_def by (rule power_two_diff_less)

lemma float_overflow_ge: "2 ^ 970 \<le> float_overflow"
  unfolding float_overflow_def by (rule power_two_diff_ge) simp

lemma small_in_range: "\<bar>r\<bar> \<le> 1024 \<Longrightarrow> \<not> overflows r"
proof -
  assume "\<bar>r\<bar> \<le> 1024"
  also have "(1024::real) = 2 ^ 10" by simp
  also have "\<dots> < (2::real) ^ 970" by (rule power_strict_increasing) simp_all
  finally have "\<bar>r\<bar> < float_overflow" using float_overflow_ge by (rule less_le_trans)
  then show ?thesis by (simp add: overflows_def)
qed

lemma two_1024_le: "(2::real) ^ 1024 \<le> 10 ^ 400"
proof -
  have "(2::real) ^ 1024 \<le> 2 ^ (13 * 79)" by (rule power_increasing) simp_all
  also have "\<dots> = ((2::real) ^ 13) ^ 79" by (rule power_mult)
  also have "\<dots> \<le> ((10::real) ^ 4) ^ 79" by (rule power_mono) simp_all
  also have "\<dots> = (10::real) ^ (4 * 79)" by (rule power_mult [symmetric])
  also have "\<dots> \<le> (10::real) ^ 400" by (rule power_increasing) simp_all
  finally show ?thesis .
qed

lemma ten_400_overflows: "overflows (10 powr 400)" "overflows ((- 10) powi \<lfloor>400::real\<rfloor>)"
proof -
  have big: "float_overflow \<le> (10::real) ^ 400"
    using float_overflow_less two_1024_le by (rule less_imp_le [OF less_le_trans])
  have nn: "\<bar>(10::real) ^ 400\<bar> = 10 ^ 400" by (rule abs_of_nonneg) (rule zero_le_power, simp)
  have p: "(10::real) powr 400 = 10 ^ 400" by (simp only: powr_numeral)
  have "(- 10::real) powi \<lfloor>400::real\<rfloor> = (- 10) ^ 400"
    by (simp only: floor_numeral power_int_numeral)
  also have "\<dots> = (10::real) ^ 400" by (rule power_minus_even) simp
  finally have q: "(- 10::real) powi \<lfloor>400::real\<rfloor> = 10 ^ 400" .
  show "overflows (10 powr 400)" unfolding overflows_def p nn by (rule big)
  show "overflows ((- 10) powi \<lfloor>400::real\<rfloor>)" unfolding overflows_def q nn by (rule big)
qed

text \<open>
  Claim C8, as stated, fails: \<^verbatim>\<open>math.pow(-1.0, 0.5)\<close> raises \<^verbatim>\<open>ValueError\<close>, which the
  handler's \<^verbatim>\<open>except Exception\<close> turns into a Failure.
\<close>

theorem C8_power_counterexample:
  "evaluate ''Advanced'' ''Power (x^y)'' (PFloat (- 1)) (PFloat (1 / 2)) PNone ''Degrees''
     = Failure ''math domain error''"
  by (simp add: evaluate_power is_integral_def)

text \<open>
  Claim C8, amended. The handler has no check of its own for Power, but \<^verbatim>\<open>math.pow\<close>
  has a domain and a range. For real operands \<open>x\<close> and \<open>y\<close>, Advanced / Power gives
  \<open>Success (x^y)\<close> when the power is defined (\<open>x > 0\<close>, or \<open>x < 0\<close> with \<open>y\<close> an
  integer, or \<open>x = 0\<close> with \<open>y \<ge> 0\<close>) and within the range of the float format. It
  gives the Failure "math range error" when the power is defined and beyond that
  range (10 to the 400, say), and the Failure "math domain error" when \<open>x < 0\<close> and
  \<open>y\<close> is not an integer, or \<open>x = 0\<close> and \<open>y < 0\<close>.
\<close>

theorem C8_power:
  "(0 < x \<and> \<not> overflows (x powr y) \<longrightarrow>
      evaluate ''Advanced'' ''Power (x^y)'' (PFloat x) (PFloat y) base angle_mode
        = Success (PFloat (x powr y)))
   \<and> (0 < x \<and> overflows (x powr y) \<longrightarrow>
      evaluate ''Advanced'' ''Power (x^y)'' (PFloat x) (PFloat y) base angle_mode
        = Failure ''math range error'')
   \<and> (x < 0 \<and> is_integral y \<and> \<not> overflows (x powi \<lfloor>y\<rfloor>) \<longrightarrow>
      evaluate ''Advanced'' ''Power (x^y)'' (PFloat x) (PFloat y) base angle_mode
        = Success (PFloat (x powi \<lfloor>y\<rfloor>)))
   \<and> (x < 0 \<and> is_integral y \<and> overflows (x powi \<lfloor>y\<rfloor>) \<longrightarrow>
      evaluate ''Advanced'' ''Power (x^y)'' (PFloat x) (PFloat y) base angle_mode
        = Failure ''math range error'')
   \<and> (x = 0 \<and> 0 \<le> y \<longrightarrow>
      evaluate ''Advanced'' ''Power (x^y)'' (PFloat x) (PFloat y) base angle_mode
        = Success (PFloat (if y = 0 then 1 else 0)))
   \<and> ((x < 0 \<and> \<not> is_integral y) \<or> (x = 0 \<and> y < 0) \<longrightarrow>
      evaluate ''Advanced'' ''Power (x^y)'' (PFloat x) (PFloat y) base angle_mode
        = Failure ''math domain error'')"
  by (simp add: evaluate_power)

theorem C8_power_witness:
  "evaluate ''Advanced'' ''Power (x^y)'' (PFloat 2) (PFloat 3) PNone ''Degrees'' = Success (PFloat 8)
   \<and> evaluate ''Advanced'' ''Power (x^y)'' (PFloat 10) (PFloat 400) PNone ''Degrees''
        = Failure ''math range error''
   \<and> evaluate ''Advanced'' ''Power (x^y)'' (PFloat (- 2)) (PFloat 3) PNone ''Degrees''
        = Success (PFloat (- 8))
   \<and> evaluate ''Advanced'' ''Power (x^y)'' (PFloat (- 10)) (PFloat 400) PNone ''Degrees''
        = Failure ''math range error''
   \<and> evaluate ''Advanced'' ''Power (x^y)'' (PFloat 0) (PFloat 0) PNone ''Degrees''
        = Success (PFloat 1)
   \<and> evaluate ''Advanced'' ''Power (x^y)'' (PFloat 0) (PFloat (- 1)) PNone ''Degrees''
        = Failure ''math domain error''"
proof (intro conjI)
  have a: "\<not> overflows (2 powr 3)" by (rule small_in_range) simp
  show "evaluate ''Advanced'' ''Power (x^y)'' (PFloat 2) (PFloat 3) PNone ''Degrees''
          = Success (PFloat 8)"
    using C8_power [of 2 3 PNone "''Degrees''"] a by simp
  have pos: "(0::real) < 10" by simp
  show "evaluate ''Advanced'' ''Power (x^y)'' (PFloat 10) (PFloat 400) PNone ''Degrees''
          = Failure ''math range error''"
    using C8_power [of 10 400 PNone "''Degrees''"] ten_400_overflows(1) pos by blast
  have b: "\<not> overflows ((- 2) powi \<lfloor>3::real\<rfloor>)" by (rule small_in_range) simp
  show "evaluate ''Advanced'' ''Power (x^y)'' (PFloat (- 2)) (PFloat 3) PNone ''Degrees''
          = Success (PFloat (- 8))"
    using C8_power [of "- 2" 3 PNone "''Degrees''"] b by (simp add: is_integral_def)
  have neg: "(- 10::real) < 0" and int: "is_integral 400" by (simp_all add: is_integral_def)
  show "evaluate ''Advanced'' ''Power (x^y)'' (PFloat (- 10)) (PFloat 400) PNone ''Degrees''
          = Failure ''math range error''"
    using C8_power [of "- 10" 400 PNone "''Degrees''"] ten_400_overflows(2) neg int by blast
  show "evaluate ''Advanced'' ''Power (x^y)'' (PFloat 0) (PFloat 0) PNone ''Degrees''
          = Success (PFloat 1)"
    using C8_power [of 0 0 PNone "''Degrees''"] by simp
  show "evaluate ''Advanced'' ''Power (x^y)'' (PFloat 0) (PFloat (- 1)) PNone ''Degrees''
          = Failure ''math domain error''"
    using C8_power [of 0 "- 1" PNone "''Degrees''"] by simp
qed

section \<open>Angle modes\<close>

lemma to_radians_float:
  "to_radians (PFloat x) angle_mode =
     Inr (PFloat (if angle_mode = ''Degrees'' then x * (pi / 180) else x))"
  by (simp add: to_radians_def math_radians_def math_arg_def bindE_def)

lemma from_radians_float:
  "from_radians (PFloat x) angle_mode =
     Inr (PFloat (if angle_mode = ''Degrees'' then x * (180 / pi) else x))"
  by (simp add: from_radians_def math_degrees_def math_arg_def bindE_def)

lemma evaluate_trig:
  "evaluate ''Trigonometry'' opn (PFloat x) y base angle_mode =
     (let r = (if angle_mode = ''Degrees'' then x * (pi / 180) else x)
      in if opn = ''sin'' then Success (PFloat (sin r))
         else if opn = ''cos'' then Success (PFloat (cos r))
         else if opn = ''tan'' then Success (PFloat (tan r))
         else Success PNone)"
  by (simp add: evaluate_def compute_def to_radians_float bindE_def math_sin_def math_cos_def
      math_tan_def math_arg_def Let_def)

lemma evaluate_arcsin:
  "evaluate ''Inverse Trig'' ''arcsin'' (PFloat x) y base angle_mode =
     (if - 1 \<le> x \<and> x \<le> 1
      then Success (PFloat (if angle_mode = ''Degrees'' then arcsin x * (180 / pi) else arcsin x))
      else Failure msg_inverse)"
  by (simp add: evaluate_def compute_def from_radians_float bindE_def math_asin_def
      math_arg_def py_le_def py_compare_def)

lemma evaluate_arccos:
  "evaluate ''Inverse Trig'' ''arccos'' (PFloat x) y base angle_mode =
     (if - 1 \<le> x \<and> x \<le> 1
      then Success (PFloat (if angle_mode = ''Degrees'' then arccos x * (180 / pi) else arccos x))
      else Failure msg_inverse)"
  by (simp add: evaluate_def compute_def from_radians_float bindE_def math_acos_def
      math_arg_def py_le_def py_compare_def)

lemma evaluate_arctan:
  "evaluate ''Inverse Trig'' ''arctan'' (PFloat x) y base angle_mode =
     Success (PFloat (if angle_mode = ''Degrees'' then arctan x * (180 / pi) else arctan x))"
  by (simp add: evaluate_def compute_def from_radians_float bindE_def math_atan_def
      math_arg_def)

text \<open>
  Claim C6. For every real \<open>x\<close>, sin, cos and tan are applied to \<open>x * pi / 180\<close> in
  Degrees mode and to \<open>x\<close> in Radians mode; arcsin, arccos (on their domain, from -1
  to 1; outside it the outcome is the domain Failure) and arctan give the inverse
  value times \<open>180 / pi\<close> in Degrees mode and unconverted in Radians mode. The two
  conversions are functions of their arguments alone and are the identity in Radians
  mode.
\<close>

theorem C6_angle_conversion:
  "evaluate ''Trigonometry'' ''sin'' (PFloat x) y base ''Degrees'' = Success (PFloat (sin (x * (pi / 180))))
   \<and> evaluate ''Trigonometry'' ''cos'' (PFloat x) y base ''Degrees'' = Success (PFloat (cos (x * (pi / 180))))
   \<and> evaluate ''Trigonometry'' ''tan'' (PFloat x) y base ''Degrees'' = Success (PFloat (tan (x * (pi / 180))))
   \<and> evaluate ''Trigonometry'' ''sin'' (PFloat x) y base ''Radians'' = Success (PFloat (sin x))
   \<and> evaluate ''Trigonometry'' ''cos'' (PFloat x) y base ''Radians'' = Success (PFloat (cos x))
   \<and> evaluate ''Trigonometry'' ''tan'' (PFloat x) y base ''Radians'' = Success (PFloat (tan x))
   \<and> (- 1 \<le> x \<and> x \<le> 1 \<longrightarrow>
        evaluate ''Inverse Trig'' ''arcsin'' (PFloat x) y base ''Degrees''
          = Success (PFloat (arcsin x * (180 / pi)))
      \<and> evaluate ''Inverse Trig'' ''arccos'' (PFloat x) y base ''Degrees''
          = Success (PFloat (arccos x * (180 / pi)))
      \<and> evaluate ''Inverse Trig'' ''arcsin'' (PFloat x) y base ''Radians'' = Success (PFloat (arcsin x))
      \<and> evaluate ''Inverse Trig'' ''arccos'' (PFloat x) y base ''Radians'' = Success (PFloat (arccos x)))
   \<and> (\<not> (- 1 \<le> x \<and> x \<le> 1) \<longrightarrow>
        evaluate ''Inverse Trig'' ''arcsin'' (PFloat x) y base angle_mode
          = Failure ''Domain error: input must be in [-1, 1].''
      \<and> evaluate ''Inverse Trig'' ''arccos'' (PFloat x) y base angle_mode
          = Failure ''Domain error: input must be in [-1, 1].'')
   \<and> evaluate ''Inverse Trig'' ''arctan'' (PFloat x) y base ''Degrees''
        = Success (PFloat (arctan x * (180 / pi)))
   \<and> evaluate ''Inverse Trig'' ''arctan'' (PFloat x) y base ''Radians'' = Success (PFloat (arctan x))
   \<and> to_radians (PFloat x) ''Degrees'' = Inr (PFloat (x * (pi / 180)))
   \<and> from_radians (PFloat x) ''Degrees'' = Inr (PFloat (x * (180 / pi)))
   \<and> to_radians v ''Radians'' = Inr v
   \<and> from_radians v ''Radians'' = Inr v"
  by (simp add: evaluate_trig evaluate_arcsin evaluate_arccos evaluate_arctan msg_inverse_def
      to_radians_float from_radians_float)
     (simp add: to_radians_def from_radians_def)

theorem C6_angle_conversion_witness:
  "evaluate ''Trigonometry'' ''sin'' (PFloat 90) PNone PNone ''Degrees'' = Success (PFloat 1)
   \<and> evaluate ''Inverse Trig'' ''arcsin'' (PFloat 1) PNone PNone ''Degrees'' = Success (PFloat 90)
   \<and> evaluate ''Inverse Trig'' ''arcsin'' (PFloat 2) PNone PNone ''Degrees''
        = Failure ''Domain error: input must be in [-1, 1].''"
  using C6_angle_conversion [of 90 PNone PNone "''Degrees''" PNone]
        C6_angle_conversion [of 1 PNone PNone "''Degrees''" PNone]
        C6_angle_conversion [of 2 PNone PNone "''Degrees''" PNone]
  by simp

section \<open>Copying the last result\<close>

lemma entry_of_sample_ok:
  "entry_of sample_ok = \<lparr>e_time = ''2024-01-01 10:00:00'', e_operation = op_label ''Basic'' ''Divide'',
      e_inputs = inputs_of sample_ok, e_result = PFloat (3 / 2), e_error = None\<rparr>"
  by (simp add: entry_of_def sample_ok_def evaluate_def compute_def py_eq_def py_truediv_def)

lemma entry_of_sample_bad:
  "entry_of sample_bad = \<lparr>e_time = ''2024-01-01 10:00:05'', e_operation = op_label ''Basic'' ''Divide'',
      e_inputs = inputs_of sample_bad, e_result = PNone, e_error = Some ''Division by zero is undefined.''\<rparr>"
  by (simp add: entry_of_def sample_bad_def evaluate_def compute_def py_eq_def msg_div_zero_def)

text \<open>
  Claim C10. The handler of "Copy last result" is a total function that only shows
  something: it shows a stored result exactly when the history is not empty and its
  last entry has no error and a result other than \<^verbatim>\<open>None\<close>; on an empty history it
  shows "No history yet.", and when the last entry carries an error or no result it
  shows "Last entry has no result to copy."; the history is left as it was.
\<close>

theorem C10_copy_last_result:
  "((\<exists>s. copy_last_result repr_float history = StCode s) \<longleftrightarrow>
      history \<noteq> [] \<and> e_error (last history) = None \<and> e_result (last history) \<noteq> PNone)
   \<and> (history \<noteq> [] \<and> e_error (last history) = None \<and> e_result (last history) \<noteq> PNone \<longrightarrow>
        copy_last_result repr_float history = StCode (py_str repr_float (e_result (last history))))
   \<and> (history = [] \<longrightarrow> copy_last_result repr_float history = StInfo ''No history yet.'')
   \<and> (history \<noteq> [] \<and> (e_error (last history) \<noteq> None \<or> e_result (last history) = PNone) \<longrightarrow>
        copy_last_result repr_float history = StInfo ''Last entry has no result to copy.'')
   \<and> script_run repr_float w CopyLastResult (Some history)
        = (history, [copy_last_result repr_float history])"
  by (auto simp add: copy_last_result_def script_run_def init_state_def Let_def)

theorem C10_copy_last_result_witness:
  "copy_last_result (\<lambda>r. ''1.5'') [entry_of sample_bad, entry_of sample_ok] = StCode ''1.5''
   \<and> copy_last_result (\<lambda>r. ''1.5'') [] = StInfo ''No history yet.''
   \<and> copy_last_result (\<lambda>r. ''1.5'') [entry_of sample_ok, entry_of sample_bad]
        = StInfo ''Last entry has no result to copy.''"
  using C10_copy_last_result [of "\<lambda>r. ''1.5''" "[entry_of sample_bad, entry_of sample_ok]" sample_ok]
        C10_copy_last_result [of "\<lambda>r. ''1.5''" "[]" sample_ok]
        C10_copy_last_result [of "\<lambda>r. ''1.5''" "[entry_of sample_ok, entry_of sample_bad]" sample_ok]
  by (simp add: entry_of_sample_ok entry_of_sample_bad)

section \<open>Pairs outside the operation lists\<close>

lemma offered_iff:
  "offered g opn \<longleftrightarrow>
     (g = ''Basic'' \<and> opn \<in> {''Add'', ''Subtract'', ''Multiply'', ''Divide''})
   \<or> (g = ''Advanced'' \<and> opn \<in> {''Power (x^y)'', ''Square Root'', ''Exponential (e^x)'',
                     ''Natural Log (ln)'', ''Log Base 10'', ''Log (Custom Base)''})
   \<or> (g = ''Trigonometry'' \<and> opn \<in> {''sin'', ''cos'', ''tan''})
   \<or> (g = ''Inverse Trig'' \<and> opn \<in> {''arcsin'', ''arccos'', ''arctan''})
   \<or> (g = ''Misc'' \<and> opn \<in> {''Absolute'', ''Factorial'', ''Percentage (x of y)''})"
  by (simp add: offered_def ops_def)

lemma compute_unknown_basic:
  "opn \<notin> {''Add'', ''Subtract'', ''Multiply'', ''Divide''} \<Longrightarrow>
   compute ''Basic'' opn x y b m = Inr PNone"
  by (simp add: compute_def)

lemma compute_unknown_advanced:
  "opn \<notin> {''Power (x^y)'', ''Square Root'', ''Exponential (e^x)'',
                     ''Natural Log (ln)'', ''Log Base 10'', ''Log (Custom Base)''} \<Longrightarrow>
   compute ''Advanced'' opn x y b m = Inr PNone"
  by (simp add: compute_def)

lemma to_radians_returns: "isinstance_float x \<Longrightarrow> \<exists>r. to_radians x m = Inr r"
  by (cases x) (simp_all add: to_radians_def math_radians_def math_arg_def bindE_def)

lemma compute_unknown_trig:
  assumes "opn \<notin> {''sin'', ''cos'', ''tan''}" and "isinstance_float x"
  shows "compute ''Trigonometry'' opn x y b m = Inr PNone"
proof -
  obtain r where "to_radians x m = Inr r" using to_radians_returns [OF assms(2)] by blast
  then show ?thesis using assms(1) by (simp add: compute_def bindE_def)
qed

lemma compute_unknown_inverse:
  "opn \<notin> {''arcsin'', ''arccos'', ''arctan''} \<Longrightarrow>
   compute ''Inverse Trig'' opn x y b m = Inr PNone"
  by (simp add: compute_def bindE_def)

lemma compute_unknown_misc:
  "opn \<notin> {''Absolute'', ''Factorial'', ''Percentage (x of y)''} \<Longrightarrow>
   compute ''Misc'' opn x y b m = Inr PNone"
  by (simp add: compute_def)

lemma known_category_iff:
  "g \<in> set (map fst ops) \<longleftrightarrow>
     g \<in> {''Basic'', ''Advanced'', ''Trigonometry'', ''Inverse Trig'', ''Misc''}"
  by (simp add: ops_def)

lemma compute_not_offered:
  assumes "g \<in> set (map fst ops)" and "\<not> offered g opn"
    and "g = ''Trigonometry'' \<longrightarrow> isinstance_float x"
  shows "compute g opn x y b m = Inr PNone"
proof -
  from assms(1) consider (basic) "g = ''Basic''" | (advanced) "g = ''Advanced''"
    | (trig) "g = ''Trigonometry''" | (inverse) "g = ''Inverse Trig''" | (misc) "g = ''Misc''"
    unfolding known_category_iff by blast
  then show ?thesis
  proof cases
    case basic
    with assms(2) have "opn \<notin> {''Add'', ''Subtract'', ''Multiply'', ''Divide''}"
      by (simp add: offered_iff)
    then show ?thesis unfolding basic by (rule compute_unknown_basic)
  next
    case advanced
    with assms(2) have "opn \<notin> {''Power (x^y)'', ''Square Root'', ''Exponential (e^x)'',
                     ''Natural Log (ln)'', ''Log Base 10'', ''Log (Custom Base)''}"
      by (simp add: offered_iff)
    then show ?thesis unfolding advanced by (rule compute_unknown_advanced)
  next
    case trig
    with assms(2) have a: "opn \<notin> {''sin'', ''cos'', ''tan''}"
      by (simp add: offered_iff)
    from trig assms(3) have b: "isinstance_float x" by simp
    show ?thesis unfolding trig using a b by (rule compute_unknown_trig)
  next
    case inverse
    with assms(2) have "opn \<notin> {''arcsin'', ''arccos'', ''arctan''}"
      by (simp add: offered_iff)
    then show ?thesis unfolding inverse by (rule compute_unknown_inverse)
  next
    case misc
    with assms(2) have "opn \<notin> {''Absolute'', ''Factorial'', ''Percentage (x of y)''}"
      by (simp add: offered_iff)
    then show ?thesis unfolding misc by (rule compute_unknown_misc)
  qed
qed

lemma format_number_None: "format_number repr_float PNone p = Inr ''None''"
  by (simp add: format_number_def)

lemma ops_lookup_unknown:
  "g \<notin> set (map fst ops) \<Longrightarrow> ops_lookup g = Inl (KeyError g)"
proof -
  assume "g \<notin> set (map fst ops)"
  then have "map_of ops g = None" by (simp add: map_of_eq_None_iff)
  then show ?thesis by (simp add: ops_lookup_def)
qed

lemma not_offered_modulo: "\<not> offered ''Basic'' ''Modulo''"
  by (simp add: offered_iff)

text \<open>
  Claim C4, as stated, fails: the pair Basic / Modulo is in no operation list, no branch
  of the chain matches it, nothing is raised, and the handler takes the normal path
  with \<^verbatim>\<open>result\<close> still \<^verbatim>\<open>None\<close>.
\<close>

theorem C4_unknown_pair_counterexample:
  "\<not> offered ''Basic'' ''Modulo'' \<and>
   evaluate ''Basic'' ''Modulo'' (PFloat 1) (PFloat 2) PNone ''Degrees'' = Success PNone"
  by (simp add: not_offered_modulo evaluate_def compute_unknown_basic)

text \<open>
  Claim C4, amended. For a known category with an operation that is not in its list
  the handler has no rejection: the outcome is the Success whose result is \<^verbatim>\<open>None\<close>,
  recorded with no error and shown as "Result: **None**" (in the category Trigonometry
  the angle is converted before the operation is looked at, so there \<open>x\<close> is taken to
  be the float that the number input of that category always supplies). For an
  unknown category the handler is not reached at all: the lookup
  \<^verbatim>\<open>ops[group]\<close> raises a \<^verbatim>\<open>KeyError\<close> that nothing catches, and the run records and
  shows nothing.
\<close>

theorem C4_unknown_pair:
  "(w_group w \<in> set (map fst ops) \<and> \<not> offered (w_group w) (w_op w)
      \<and> (w_group w = ''Trigonometry'' \<longrightarrow> isinstance_float (w_x w)) \<longrightarrow>
        evaluate (w_group w) (w_op w) (w_x w) (w_y w) (w_base w) (w_angle_mode w) = Success PNone
        \<and> calculate repr_float w history =
            (history @ [\<lparr>e_time = w_now w, e_operation = op_label (w_group w) (w_op w),
                          e_inputs = inputs_of w, e_result = PNone, e_error = None\<rparr>],
             StSuccess ''Result: **None**''))
   \<and> (w_group w \<notin> set (map fst ops) \<longrightarrow>
        ops_lookup (w_group w) = Inl (KeyError (w_group w))
        \<and> script_run repr_float w Calculate (Some history) = (history, []))"
proof (intro conjI impI)
  assume a: "w_group w \<in> set (map fst ops) \<and> \<not> offered (w_group w) (w_op w)
      \<and> (w_group w = ''Trigonometry'' \<longrightarrow> isinstance_float (w_x w))"
  then have "compute (w_group w) (w_op w) (w_x w) (w_y w) (w_base w) (w_angle_mode w) = Inr PNone"
    by (intro compute_not_offered) simp_all
  then show e: "evaluate (w_group w) (w_op w) (w_x w) (w_y w) (w_base w) (w_angle_mode w)
                 = Success PNone"
    by (simp add: evaluate_def)
  show "calculate repr_float w history =
            (history @ [\<lparr>e_time = w_now w, e_operation = op_label (w_group w) (w_op w),
                          e_inputs = inputs_of w, e_result = PNone, e_error = None\<rparr>],
             StSuccess ''Result: **None**'')"
    by (simp add: calculate_def e add_history_def format_number_None)
next
  assume b: "w_group w \<notin> set (map fst ops)"
  then show l: "ops_lookup (w_group w) = Inl (KeyError (w_group w))"
    by (rule ops_lookup_unknown)
  show "script_run repr_float w Calculate (Some history) = (history, [])"
    by (simp add: script_run_def init_state_def l)
qed

theorem C4_unknown_pair_witness:
  "evaluate ''Misc'' ''Square'' (PFloat 6) (PFloat 4) PNone ''Degrees'' = Success PNone
   \<and> snd (calculate (\<lambda>r. []) (sample_ok\<lparr>w_group := ''Misc'', w_op := ''Square''\<rparr>) [])
       = StSuccess ''Result: **None**''
   \<and> ops_lookup ''Stats'' = Inl (KeyError ''Stats'')
   \<and> script_run (\<lambda>r. []) (sample_ok\<lparr>w_group := ''Stats'', w_op := ''Mean''\<rparr>) Calculate (Some [])
       = ([], [])"
  using C4_unknown_pair [of "sample_ok\<lparr>w_group := ''Misc'', w_op := ''Square''\<rparr>" "\<lambda>r. []" "[]"]
        C4_unknown_pair [of "sample_ok\<lparr>w_group := ''Stats'', w_op := ''Mean''\<rparr>" "\<lambda>r. []" "[]"]
  by (simp add: offered_iff known_category_iff sample_ok_def del: set_map)

section \<open>One attempt, two entries\<close>

lemma length_str_nat_gt: "10 ^ k \<le> n \<Longrightarrow> k < length (str_nat n)"
proof (induction n arbitrary: k rule: str_nat.induct)
  case (1 n)
  show ?case
  proof (cases "n < 10")
    case True
    have "k = 0"
    proof (rule ccontr)
      assume "k \<noteq> 0"
      then obtain j where "k = Suc j" by (cases k) auto
      then have "(10::nat) \<le> 10 ^ k" by simp
      with "1.prems" True show False by simp
    qed
    then show ?thesis using True by (simp add: str_nat.simps [of n])
  next
    case False
    show ?thesis
    proof (cases k)
      case 0
      then show ?thesis using False by (simp add: str_nat.simps [of n])
    next
      case (Suc j)
      with "1.prems" have "10 * 10 ^ j \<le> n" by simp
      then have "10 ^ j \<le> n div 10" by simp
      then have "j < length (str_nat (n div 10))" using "1.IH" [OF False] by blast
      then show ?thesis using False Suc by (simp add: str_nat.simps [of n])
    qed
  qed
qed

lemma fact_ge_power: "m ^ k \<le> (fact (m + k) :: nat)"
proof (induction k)
  case 0
  show ?case by (simp add: Suc_leI)
next
  case (Suc k)
  have "m ^ Suc k = m * m ^ k" by simp
  also have "\<dots> \<le> (m + Suc k) * fact (m + k)"
    by (rule mult_mono) (use Suc in simp_all)
  also have "\<dots> = fact (m + Suc k)" by simp
  finally show ?case .
qed

lemma fact_3000_digits: "int_max_str_digits < length (str_nat (fact 3000))"
proof -
  have e: "(10::nat) ^ 3 = 1000" by simp
  have "(10::nat) ^ 4300 \<le> 10 ^ (3 * 2000)" by (rule power_increasing) simp_all
  also have "\<dots> = ((10::nat) ^ 3) ^ 2000" by (rule power_mult)
  also have "\<dots> = (1000::nat) ^ 2000" by (simp only: e)
  also have "\<dots> \<le> fact (1000 + 2000)" by (rule fact_ge_power)
  also have "(1000::nat) + 2000 = 3000" by simp
  finally have "(10::nat) ^ 4300 \<le> fact 3000" .
  then show ?thesis unfolding int_max_str_digits_def by (rule length_str_nat_gt)
qed


lemma calculate_fst:
  "fst (calculate repr_float w history) =
     history @ entry_of w #
       (case evaluate (w_group w) (w_op w) (w_x w) (w_y w) (w_base w) (w_angle_mode w) of
          Success result \<Rightarrow>
            (case format_number repr_float result (w_precision w) of
               Inl e \<Rightarrow> [second_entry w e]
             | Inr s \<Rightarrow> [])
        | Failure error \<Rightarrow> [])"
  by (simp add: calculate_def entry_of_def second_entry_def add_history_def Let_def
      split: outcome.split sum.split)

lemma calculate_keeps_prefix: "\<exists>es. fst (calculate repr_float w history) = history @ es"
  unfolding calculate_fst by blast

lemma script_run_keeps_prefix:
  "b \<noteq> ClearHistory \<Longrightarrow> \<exists>es. fst (script_run repr_float w b (Some history)) = history @ es"
proof (cases b)
  case Calculate
  show ?thesis
  proof (cases "ops_lookup (w_group w)")
    case (Inl e)
    then show ?thesis using Calculate by (simp add: script_run_def init_state_def)
  next
    case (Inr l)
    then have "fst (script_run repr_float w b (Some history)) = fst (calculate repr_float w history)"
      using Calculate by (simp add: script_run_def init_state_def split_beta)
    then show ?thesis using calculate_keeps_prefix by simp
  qed
qed (simp_all add: script_run_def init_state_def)

lemma runs_keep_prefix:
  "\<forall>(w, b) \<in> set rs. b \<noteq> ClearHistory \<Longrightarrow> \<exists>es. runs repr_float rs history = history @ es"
proof (induction rs arbitrary: history)
  case Nil
  show ?case by simp
next
  case (Cons r rs)
  obtain w b where r: "r = (w, b)" by (cases r)
  with Cons.prems have b: "b \<noteq> ClearHistory" by simp
  from Cons.prems have rest: "\<forall>(w, b) \<in> set rs. b \<noteq> ClearHistory" by simp
  obtain e1 where e1: "fst (script_run repr_float w b (Some history)) = history @ e1"
    using script_run_keeps_prefix [OF b] by blast
  obtain e2 where "runs repr_float rs (history @ e1) = (history @ e1) @ e2"
    using Cons.IH [OF rest, of "history @ e1"] by blast
  then show ?case using r e1 by simp
qed

lemma str_checked_agrees:
  "str_checked repr_float v = Inr s \<Longrightarrow> s = py_str repr_float v"
  by (cases v) (simp_all split: if_splits)

lemma format_number_within_limit:
  "format_number repr_float v p = Inr s \<Longrightarrow> str_checked repr_float v = Inr (py_str repr_float v)"
  by (cases v) (simp_all add: format_number_def split: if_splits)

lemma calculate_last_within_limit:
  assumes "e_error (last (fst (calculate repr_float w history))) = None"
  shows "str_checked repr_float (e_result (last (fst (calculate repr_float w history))))
         = Inr (py_str repr_float (e_result (last (fst (calculate repr_float w history)))))"
proof (cases "evaluate (w_group w) (w_op w) (w_x w) (w_y w) (w_base w) (w_angle_mode w)")
  case (Failure error)
  with assms show ?thesis by (simp add: calculate_fst entry_of_def)
next
  case (Success result)
  show ?thesis
  proof (cases "format_number repr_float result (w_precision w)")
    case (Inl e)
    with assms Success show ?thesis by (simp add: calculate_fst second_entry_def)
  next
    case (Inr s)
    then have "str_checked repr_float result = Inr (py_str repr_float result)"
      by (rule format_number_within_limit)
    then show ?thesis using Success Inr by (simp add: calculate_fst entry_of_def)
  qed
qed

lemma evaluate_factorial_3000:
  "evaluate ''Misc'' ''Factorial'' (PInt 3000) y base angle_mode = Success (PInt (fact 3000))"
  by (simp add: evaluate_factorial)

lemma nat_abs_fact: "nat \<bar>fact n :: int\<bar> = fact n"
proof -
  have "(fact n :: int) = int (fact n)" by simp
  then have "nat \<bar>fact n :: int\<bar> = nat \<bar>int (fact n)\<bar>" by (rule arg_cong)
  also have "\<dots> = fact n" by (simp only: abs_of_nat nat_int)
  finally show ?thesis .
qed

lemma nat_fact_int: "nat (fact n :: int) = fact n"
  using nat_abs_fact [of n] by simp

lemma format_factorial_3000:
  "format_number repr_float (PInt (fact 3000)) p = Inl (ValueError msg_str_digits)"
  using fact_3000_digits by (simp add: format_number_def nat_fact_int)

text \<open>
  Claim C5 asks for exactly one entry per Calculate attempt. The handler records the
  entry of a result and only then formats it, all inside the \<^verbatim>\<open>try\<close> block. The
  factorial of 3000 is computed and recorded; its text has more than 4300 digits, so
  \<^verbatim>\<open>format_number\<close> raises, and the \<^verbatim>\<open>except\<close> clause records a second entry for the
  same attempt and shows the error: one attempt, two entries. (The other half of the
  claim stands: \<open>runs_keep_prefix\<close> shows that entries are only added at the end or
  all removed by Clear.)
\<close>

theorem C5_two_entries_for_one_attempt:
  "evaluate ''Misc'' ''Factorial'' (PInt 3000) PNone PNone ''Degrees''
     = Success (PInt (fact 3000))
   \<and> calculate (\<lambda>r. []) sample_big [] =
       ([\<lparr>e_time = ''2024-01-01 10:00:10'', e_operation = op_label ''Misc'' ''Factorial'',
          e_inputs = inputs_of sample_big, e_result = PInt (fact 3000), e_error = None\<rparr>,
         \<lparr>e_time = ''2024-01-01 10:00:11'', e_operation = op_label ''Misc'' ''Factorial'',
          e_inputs = inputs_of sample_big, e_result = PNone,
          e_error = Some msg_str_digits\<rparr>],
        StError (''Error: '' @ msg_str_digits))
   \<and> length (fst (calculate (\<lambda>r. []) sample_big [])) = 2"
proof -
  have e: "evaluate (w_group sample_big) (w_op sample_big) (w_x sample_big) (w_y sample_big)
             (w_base sample_big) (w_angle_mode sample_big) = Success (PInt (fact 3000))"
    by (simp add: sample_big_def evaluate_factorial_3000)
  have c: "calculate (\<lambda>r. []) sample_big [] =
       ([\<lparr>e_time = ''2024-01-01 10:00:10'', e_operation = op_label ''Misc'' ''Factorial'',
          e_inputs = inputs_of sample_big, e_result = PInt (fact 3000), e_error = None\<rparr>,
         \<lparr>e_time = ''2024-01-01 10:00:11'', e_operation = op_label ''Misc'' ''Factorial'',
          e_inputs = inputs_of sample_big, e_result = PNone,
          e_error = Some msg_str_digits\<rparr>],
        StError (''Error: '' @ msg_str_digits))"
    unfolding calculate_def e
    by (simp add: format_factorial_3000 add_history_def Let_def)
       (simp add: sample_big_def)
  show ?thesis unfolding c by (simp add: evaluate_factorial_3000)
qed

section \<open>Formatting a result\<close>

lemma digit_cases: "d < 10 \<Longrightarrow> d \<in> {0, 1, 2, 3, 4, 5, 6, 7, 8, 9::nat}"
  by auto

lemma digit_char_is_digit: "d < 10 \<Longrightarrow> is_digit (digit_char d)"
  using digit_cases [of d] by (auto simp add: digit_char_def is_digit_def)

lemma digit_value_digit_char: "d < 10 \<Longrightarrow> digit_value (digit_char d) = d"
  using digit_cases [of d] by (auto simp add: digit_char_def digit_value_def)

lemma is_digit_not_point: "is_digit c \<Longrightarrow> c \<noteq> CHR ''.''"
  by (auto simp add: is_digit_def)

lemma str_nat_digits: "c \<in> set (str_nat n) \<Longrightarrow> is_digit c"
proof (induction n arbitrary: c rule: str_nat.induct)
  case (1 n)
  show ?case
  proof (cases "n < 10")
    case True
    with "1.prems" show ?thesis by (simp add: str_nat.simps [of n] digit_char_is_digit)
  next
    case False
    with "1.prems" have "c \<in> set (str_nat (n div 10)) \<or> c = digit_char (n mod 10)"
      by (auto simp add: str_nat.simps [of n])
    then show ?thesis using "1.IH" [OF False] by (auto simp add: digit_char_is_digit)
  qed
qed

lemma digits_value_snoc: "digits_value (s @ [c]) = 10 * digits_value s + digit_value c"
  by (simp add: digits_value_def)

lemma digits_value_str_nat: "digits_value (str_nat n) = n"
proof (induction n rule: str_nat.induct)
  case (1 n)
  show ?case
  proof (cases "n < 10")
    case True
    then show ?thesis
      by (simp add: str_nat.simps [of n] digits_value_def digit_value_digit_char)
  next
    case False
    then show ?thesis using "1.IH" [OF False]
      by (simp add: str_nat.simps [of n] digits_value_snoc digit_value_digit_char)
  qed
qed

lemma length_str_nat: "n < 10 ^ p \<Longrightarrow> 0 < p \<Longrightarrow> length (str_nat n) \<le> p"
proof (induction n arbitrary: p rule: str_nat.induct)
  case (1 n)
  show ?case
  proof (cases "n < 10")
    case True
    with "1.prems" show ?thesis by (simp add: str_nat.simps [of n])
  next
    case False
    obtain q where p: "p = Suc q" using "1.prems"(2) by (cases p) auto
    have "q \<noteq> 0" using False "1.prems"(1) p by (cases q) auto
    moreover have "n div 10 < 10 ^ q" using "1.prems"(1) p by (simp add: less_mult_imp_div_less)
    ultimately have "length (str_nat (n div 10)) \<le> q" using "1.IH" [OF False, of q] by simp
    then show ?thesis using False p by (simp add: str_nat.simps [of n])
  qed
qed

lemma digits_value_zeros: "digits_value (replicate k (CHR ''0'') @ s) = digits_value s"
proof (induction k)
  case 0
  show ?case by simp
next
  case (Suc k)
  have "digits_value (CHR ''0'' # t) = digits_value t" for t
  proof -
    have "foldl (\<lambda>a c. 10 * a + digit_value c) (10 * 0 + digit_value CHR ''0'') t
          = foldl (\<lambda>a c. 10 * a + digit_value c) 0 t"
      by (simp add: digit_value_def)
    then show ?thesis by (simp add: digits_value_def)
  qed
  with Suc show ?case by simp
qed

lemma zero_pad_str_nat:
  assumes "n < 10 ^ p" and "0 < p"
  shows "length (zero_pad p (str_nat n)) = p"
    and "\<forall>c \<in> set (zero_pad p (str_nat n)). is_digit c"
    and "digits_value (zero_pad p (str_nat n)) = n"
proof -
  show "length (zero_pad p (str_nat n)) = p"
    using length_str_nat [OF assms] by (simp add: zero_pad_def)
  show "\<forall>c \<in> set (zero_pad p (str_nat n)). is_digit c"
    by (auto simp add: zero_pad_def is_digit_def dest: str_nat_digits)
  show "digits_value (zero_pad p (str_nat n)) = n"
    by (simp add: zero_pad_def digits_value_zeros digits_value_str_nat)
qed

lemma round_half_even_close: "\<bar>real_of_int (round_half_even t) - t\<bar> \<le> 1 / 2"
  unfolding round_half_even_def Let_def by (auto; linarith)

lemma round_half_even_nonneg: "0 \<le> t \<Longrightarrow> 0 \<le> round_half_even t"
  unfolding round_half_even_def Let_def by (auto; linarith)


lemma str_int_shape:
  "\<exists>ds. (\<forall>c \<in> set ds. is_digit c) \<and> digits_value ds = nat \<bar>n\<bar>
        \<and> str_int n = (if n < 0 then ''-'' else []) @ ds"
proof (intro exI conjI)
  show "\<forall>c \<in> set (str_nat (nat \<bar>n\<bar>)). is_digit c" by (auto dest: str_nat_digits)
  show "digits_value (str_nat (nat \<bar>n\<bar>)) = nat \<bar>n\<bar>" by (rule digits_value_str_nat)
  show "str_int n = (if n < 0 then ''-'' else []) @ str_nat (nat \<bar>n\<bar>)"
    by (simp add: str_int_def)
qed

lemma str_int_no_point: "CHR ''.'' \<notin> set (str_int n)"
proof
  assume a: "CHR ''.'' \<in> set (str_int n)"
  have "\<not> is_digit CHR ''.''" "\<not> is_digit CHR ''-''" by (simp_all add: is_digit_def)
  moreover from a have "CHR ''.'' \<in> set (str_nat (nat (- n))) \<or> CHR ''.'' \<in> set (str_nat (nat n))"
    by (cases "n < 0") (simp_all add: str_int_def)
  ultimately show False using str_nat_digits by blast
qed

lemma split_value:
  fixes n :: nat
  shows "real (n div 10 ^ p) + real (n mod 10 ^ p) / 10 ^ p = real n / 10 ^ p"
proof -
  have "n div 10 ^ p * 10 ^ p + n mod 10 ^ p = n" by (rule div_mult_mod_eq)
  then have "real (n div 10 ^ p * 10 ^ p + n mod 10 ^ p) = real n" by (rule arg_cong)
  then have "real (n div 10 ^ p) * 10 ^ p + real (n mod 10 ^ p) = real n"
    by (simp only: of_nat_add of_nat_mult of_nat_power of_nat_numeral)
  then have "(real (n div 10 ^ p) * 10 ^ p + real (n mod 10 ^ p)) / 10 ^ p = real n / 10 ^ p"
    by (rule arg_cong)
  then show ?thesis by (simp add: add_divide_distrib)
qed

lemma fixed_point_shape:
  "\<exists>whole frac. (\<forall>c \<in> set (whole @ frac). is_digit c) \<and> length frac = p
     \<and> fixed_point r p = (if r < 0 then ''-'' else []) @ whole @ (if p = 0 then [] else CHR ''.'' # frac)
     \<and> \<bar>real (digits_value whole) + real (digits_value frac) / 10 ^ p - \<bar>r\<bar>\<bar> \<le> 1 / (2 * 10 ^ p)"
proof -
  define n where "n = nat (round_half_even (\<bar>r\<bar> * 10 ^ p))"
  define whole where "whole = str_nat (n div 10 ^ p)"
  define frac where "frac = (if p = 0 then [] else zero_pad p (str_nat (n mod 10 ^ p)))"
  have nn: "real n = real_of_int (round_half_even (\<bar>r\<bar> * 10 ^ p))"
    using round_half_even_nonneg [of "\<bar>r\<bar> * 10 ^ p"] by (simp add: n_def)
  have close: "\<bar>real n - \<bar>r\<bar> * 10 ^ p\<bar> \<le> 1 / 2"
    using round_half_even_close [of "\<bar>r\<bar> * 10 ^ p"] by (simp add: nn)
  have m: "n mod 10 ^ p < 10 ^ p" by simp
  have fr: "length frac = p \<and> (\<forall>c \<in> set frac. is_digit c) \<and> digits_value frac = n mod 10 ^ p"
  proof (cases "p = 0")
    case True
    then show ?thesis by (simp add: frac_def digits_value_def)
  next
    case False
    then have "0 < p" by simp
    from zero_pad_str_nat [OF m this] show ?thesis using False by (simp add: frac_def)
  qed
  have wh: "(\<forall>c \<in> set whole. is_digit c) \<and> digits_value whole = n div 10 ^ p"
    by (auto simp add: whole_def digits_value_str_nat dest: str_nat_digits)
  have val: "real (digits_value whole) + real (digits_value frac) / 10 ^ p = real n / 10 ^ p"
    using fr wh by (simp add: split_value)
  have pos: "(0::real) < 10 ^ p" by simp
  have "real n / 10 ^ p - \<bar>r\<bar> = (real n - \<bar>r\<bar> * 10 ^ p) / 10 ^ p"
    by (simp add: diff_divide_distrib)
  then have "\<bar>real n / 10 ^ p - \<bar>r\<bar>\<bar> = \<bar>real n - \<bar>r\<bar> * 10 ^ p\<bar> / 10 ^ p"
    by (simp only: abs_divide) simp
  also have "\<dots> \<le> (1 / 2) / 10 ^ p"
    by (rule divide_right_mono [OF close]) simp
  finally have err: "\<bar>real n / 10 ^ p - \<bar>r\<bar>\<bar> \<le> 1 / (2 * 10 ^ p)" by simp
  have shape: "fixed_point r p =
      (if r < 0 then ''-'' else []) @ whole @ (if p = 0 then [] else CHR ''.'' # frac)"
    by (simp add: fixed_point_def Let_def n_def whole_def frac_def)
  show ?thesis
    using fr wh shape err val by (intro exI [of _ whole] exI [of _ frac]) auto
qed

lemma format_number_int:
  "length (str_nat (nat \<bar>n\<bar>)) \<le> int_max_str_digits \<Longrightarrow>
   format_number repr_float (PInt n) p = Inr (str_int n)"
  by (simp add: format_number_def)

lemma format_number_float:
  "format_number repr_float (PFloat r) p =
     Inr (if overflows r then (if r < 0 then ''-inf'' else ''inf'') else fixed_point r p)"
  by (simp add: format_number_def format_float_def)

lemma str_nat_3: "str_nat 3 = ''3''"
  by (simp add: str_nat.simps [of 3] digit_char_def)

lemma str_nat_0: "str_nat 0 = ''0''"
  by (simp add: str_nat.simps [of 0] digit_char_def)

lemma round_half_even_300: "round_half_even 300 = 300"
  by (simp add: round_half_even_def)

lemma fixed_point_zero:
  "fixed_point 0 p = CHR ''0'' # (if p = 0 then [] else CHR ''.'' # replicate p (CHR ''0''))"
proof -
  have r: "round_half_even 0 = 0" by (simp add: round_half_even_def)
  have "replicate (p - Suc 0) (CHR ''0'') @ ''0'' = replicate p (CHR ''0'')" if "p \<noteq> 0"
  proof -
    from that obtain q where "p = Suc q" by (cases p) auto
    then show ?thesis by (simp add: replicate_append_same)
  qed
  then show ?thesis by (simp add: fixed_point_def r str_nat_0 zero_pad_def)
qed

lemma format_number_neg_zero:
  "format_number repr_float PNegZero p =
     Inr (''-0'' @ (if p = 0 then [] else CHR ''.'' # replicate p (CHR ''0'')))"
  by (simp add: format_number_def fixed_point_zero)

text \<open>
  Claim C7, as stated, fails: the float 3.0 is an integer-valued result (the square
  root of 9, say), and it is rendered with a decimal point and \<open>precision\<close> decimals,
  because the test is \<^verbatim>\<open>isinstance(x, int)\<close>.
\<close>

theorem C7_format_whole_float_counterexample:
  "is_integral 3 \<and> format_number (\<lambda>r. ''3.0'') (PFloat 3) 2 = Inr ''3.00''"
proof -
  have "\<not> overflows 3" by (rule small_in_range) simp
  then show ?thesis
    by (simp add: format_number_float fixed_point_def round_half_even_300 str_nat_3 str_nat_0
        zero_pad_def is_integral_def)
qed

text \<open>
  Claim C7, amended. For every precision, \<^verbatim>\<open>format_number\<close> renders a value of type
  int of at most 4300 digits (a Factorial result up to 1558!) as its exact decimal
  digits, with a minus sign when negative and no decimal point. It renders every
  finite float, whole-valued ones included, in fixed point: sign, integer digits and,
  when the precision is not 0, a point followed by exactly \<open>precision\<close> digits, the
  digits denoting the value rounded to that many decimals; the negative zero keeps its
  sign, and a float result that has overflowed to an infinity is rendered \<^verbatim>\<open>inf\<close> or
  \<^verbatim>\<open>-inf\<close>. The non-numeric \<^verbatim>\<open>None\<close> makes the format fail, and the fallback returns
  its generic text "None" instead of raising.
\<close>

theorem C7_format_number:
  "(length (str_nat (nat \<bar>n\<bar>)) \<le> 4300 \<longrightarrow>
      format_number repr_float (PInt n) p = Inr (str_int n)
      \<and> CHR ''.'' \<notin> set (str_int n)
      \<and> (\<exists>ds. (\<forall>c \<in> set ds. is_digit c) \<and> digits_value ds = nat \<bar>n\<bar>
             \<and> str_int n = (if n < 0 then ''-'' else []) @ ds))
   \<and> (\<not> overflows r \<longrightarrow>
      (\<exists>whole frac. (\<forall>c \<in> set (whole @ frac). is_digit c) \<and> length frac = p
          \<and> format_number repr_float (PFloat r) p
              = Inr ((if r < 0 then ''-'' else []) @ whole @
                     (if p = 0 then [] else CHR ''.'' # frac))
          \<and> \<bar>real (digits_value whole) + real (digits_value frac) / 10 ^ p - \<bar>r\<bar>\<bar>
              \<le> 1 / (2 * 10 ^ p)))
   \<and> (overflows r \<longrightarrow>
      format_number repr_float (PFloat r) p = Inr (if r < 0 then ''-inf'' else ''inf''))
   \<and> format_number repr_float PNegZero p
        = Inr (''-0'' @ (if p = 0 then [] else CHR ''.'' # replicate p (CHR ''0'')))
   \<and> format_number repr_float PNone p = Inr ''None''"
proof (intro conjI impI)
  assume "length (str_nat (nat \<bar>n\<bar>)) \<le> 4300"
  then show "format_number repr_float (PInt n) p = Inr (str_int n)"
    by (intro format_number_int) (simp add: int_max_str_digits_def)
next
  show "CHR ''.'' \<notin> set (str_int n)" by (rule str_int_no_point)
next
  show "\<exists>ds. (\<forall>c \<in> set ds. is_digit c) \<and> digits_value ds = nat \<bar>n\<bar>
             \<and> str_int n = (if n < 0 then ''-'' else []) @ ds"
    by (rule str_int_shape)
next
  assume "\<not> overflows r"
  then show "\<exists>whole frac. (\<forall>c \<in> set (whole @ frac). is_digit c) \<and> length frac = p
          \<and> format_number repr_float (PFloat r) p
              = Inr ((if r < 0 then ''-'' else []) @ whole @
                     (if p = 0 then [] else CHR ''.'' # frac))
          \<and> \<bar>real (digits_value whole) + real (digits_value frac) / 10 ^ p - \<bar>r\<bar>\<bar>
              \<le> 1 / (2 * 10 ^ p)"
    using fixed_point_shape [of p r] by (simp add: format_number_float)
next
  assume "overflows r"
  then show "format_number repr_float (PFloat r) p = Inr (if r < 0 then ''-inf'' else ''inf'')"
    by (simp add: format_number_float)
next
  show "format_number repr_float PNegZero p
        = Inr (''-0'' @ (if p = 0 then [] else CHR ''.'' # replicate p (CHR ''0'')))"
    by (rule format_number_neg_zero)
next
  show "format_number repr_float PNone p = Inr ''None''" by (rule format_number_None)
qed

theorem C7_format_number_witness:
  "format_number (\<lambda>r. []) (PInt 5) 2 = Inr ''5''
   \<and> format_number (\<lambda>r. []) (PFloat (10 powr 400)) 2 = Inr ''inf''
   \<and> format_number (\<lambda>r. []) PNegZero 2 = Inr ''-0.00''
   \<and> format_number (\<lambda>r. []) PNone 2 = Inr ''None''"
proof -
  have s: "str_nat 5 = ''5''" by (simp add: str_nat.simps [of 5] digit_char_def)
  have l: "length (str_nat (nat \<bar>5::int\<bar>)) \<le> 4300" by (simp add: s)
  have pos: "\<not> (10 powr 400 < (0::real))" by (simp add: not_less)
  have a: "format_number (\<lambda>r. []) (PInt 5) 2 = Inr ''5''"
    using C7_format_number [of 5 "\<lambda>r. []" 2 0] l by (simp add: str_int_def s)
  have b: "format_number (\<lambda>r. []) (PFloat (10 powr 400)) 2 = Inr ''inf''"
    using C7_format_number [of 5 "\<lambda>r. []" 2 "10 powr 400"] ten_400_overflows(1) pos by presburger
  have c: "format_number (\<lambda>r. []) PNegZero 2 = Inr ''-0.00''
           \<and> format_number (\<lambda>r. []) PNone 2 = Inr ''None''"
    using C7_format_number [of 5 "\<lambda>r. []" 2 0] by (simp add: numeral_2_eq_2)
  show ?thesis using a b c by blast
qed

section \<open>The sine round trip\<close>

lemma round_half_even_of_int: "round_half_even (of_int k) = k"
  by (simp add: round_half_even_def)

lemma round_half_even_up:
  assumes "of_int k - 1 / 2 < q" and "q < of_int k"
  shows "round_half_even q = k"
proof -
  have f: "\<lfloor>q\<rfloor> = k - 1" using assms by (intro floor_unique) simp_all
  show ?thesis using assms by (simp add: round_half_even_def f Let_def)
qed

lemma fl_error: "\<bar>fl r - r\<bar> \<le> \<bar>r\<bar> / 2 ^ 53"
proof (cases "r = 0")
  case True
  then show ?thesis by (simp add: fl_def)
next
  case False
  define e where "e = \<lfloor>log 2 \<bar>r\<bar>\<rfloor>"
  define u :: real where "u = 2 powr (of_int e - 52)"
  have u_pos: "0 < u" by (simp add: u_def)
  have fl: "fl r = of_int (round_half_even (r / u)) * u"
    using False by (simp add: fl_def e_def u_def Let_def)
  have "fl r - r = (of_int (round_half_even (r / u)) - r / u) * u"
    using u_pos by (simp add: fl left_diff_distrib)
  then have "\<bar>fl r - r\<bar> = \<bar>of_int (round_half_even (r / u)) - r / u\<bar> * u"
    using u_pos by (simp add: abs_mult)
  also have "\<dots> \<le> (1 / 2) * u"
    using u_pos round_half_even_close [of "r / u"] by (intro mult_right_mono) simp_all
  finally have a: "\<bar>fl r - r\<bar> \<le> u / 2" by simp
  have "2 powr of_int e \<le> \<bar>r\<bar>"
    using floor_log_eq_powr_iff [of "\<bar>r\<bar>" 2 e] False by (simp add: e_def)
  moreover have "u = 2 powr of_int e / 2 ^ 52"
    by (simp add: u_def powr_diff)
  ultimately have "u / 2 \<le> \<bar>r\<bar> / 2 ^ 53" by simp
  with a show ?thesis by linarith
qed

lemma fl_near_one:
  assumes "1 - 1 / 2 ^ 54 < t" and "t \<le> 1"
  shows "fl t = 1"
proof (cases "t = 1")
  case True
  have "fl 1 = of_int (round_half_even (1 / 2 powr (- 52))) * 2 powr (- 52)"
    by (simp add: fl_def Let_def)
  also have "1 / 2 powr (- 52) = (of_int (2 ^ 52) :: real)"
    by (simp add: powr_minus)
  also have "of_int (round_half_even (of_int (2 ^ 52))) * 2 powr (- 52) = (1::real)"
    by (simp only: round_half_even_of_int) (simp add: powr_minus)
  finally show ?thesis using True by simp
next
  case False
  with assms have lt: "t < 1" by simp
  have half: "1 / 2 \<le> t" using assms(1) by simp
  have e: "\<lfloor>log 2 t\<rfloor> = - 1"
    using floor_log_eq_powr_iff [of t 2 "- 1"] half lt by (simp add: powr_minus)
  have p: "(2::real) powr (- 53) = 1 / 2 ^ 53"
    by (simp add: powr_minus)
  have "fl t = of_int (round_half_even (t / 2 powr (- 53))) * 2 powr (- 53)"
    using half by (simp add: fl_def e Let_def)
  then have fl: "fl t = of_int (round_half_even (t * 2 ^ 53)) * (1 / 2 ^ 53)"
    by (simp only: p) simp
  have "round_half_even (t * 2 ^ 53) = 2 ^ 53"
    using assms(1) lt by (intro round_half_even_up) simp_all
  then show ?thesis by (simp add: fl)
qed


lemma one_minus_sin_le: "1 - sin r \<le> (pi / 2 - r)\<^sup>2 / 2"
proof -
  define d where "d = pi / 2 - r"
  have "sin r = cos d" by (simp add: d_def sin_cos_eq)
  also have "\<dots> = cos (2 * (d / 2))" by simp
  also have "\<dots> = 1 - 2 * (sin (d / 2))\<^sup>2" by (rule cos_double_sin)
  finally have e: "1 - sin r = 2 * (sin (d / 2))\<^sup>2" by simp
  have "(sin (d / 2))\<^sup>2 \<le> (d / 2)\<^sup>2"
    using abs_sin_x_le_abs_x [of "d / 2"] by (rule iffD1 [OF abs_le_square_iff])
  with e have "1 - sin r \<le> 2 * (d / 2)\<^sup>2" by simp
  also have "\<dots> = d\<^sup>2 / 2" by (simp add: power2_eq_square)
  finally show ?thesis by (simp add: d_def)
qed

lemma fl_pi_close: "\<bar>fl pi - pi\<bar> \<le> 1 / 2 ^ 51"
proof -
  have "\<bar>fl pi - pi\<bar> \<le> \<bar>pi\<bar> / 2 ^ 53" by (rule fl_error)
  also have "\<dots> \<le> 4 / 2 ^ 53" using pi_less_4 by (intro divide_right_mono) simp_all
  finally show ?thesis by simp
qed

lemma fl_pi_bounds: "19 / 10 \<le> fl pi" "fl pi \<le> 41 / 10"
proof -
  have "\<bar>fl pi - pi\<bar> \<le> 1 / 10"
    using fl_pi_close by (rule order_trans) simp
  then show "19 / 10 \<le> fl pi" "fl pi \<le> 41 / 10"
    using pi_ge_two pi_less_4 unfolding abs_le_iff by simp_all
qed

lemma deg_to_rad_close: "\<bar>deg_to_rad - pi / 180\<bar> \<le> 1 / 2 ^ 56"
proof -
  have "\<bar>deg_to_rad - fl pi / 180\<bar> \<le> \<bar>fl pi / 180\<bar> / 2 ^ 53"
    unfolding deg_to_rad_def by (rule fl_error)
  also have "\<dots> \<le> (1 / 32) / 2 ^ 53"
    using fl_pi_bounds by (intro divide_right_mono) (simp_all add: abs_le_iff)
  finally have a: "\<bar>deg_to_rad - fl pi / 180\<bar> \<le> 1 / 2 ^ 58" by simp
  have b: "\<bar>fl pi / 180 - pi / 180\<bar> \<le> 1 / 2 ^ 58"
    using fl_pi_close unfolding abs_le_iff by simp
  show ?thesis using a b unfolding abs_le_iff by simp
qed

lemma radians_near_ninety_close: "\<bar>radians_fl near_ninety - pi / 2\<bar> \<le> 1 / 2 ^ 27"
proof -
  have c: "\<bar>deg_to_rad - pi / 180\<bar> \<le> 1 / 2 ^ 56" by (rule deg_to_rad_close)
  have x: "0 \<le> near_ninety" "near_ninety \<le> 90" by (simp_all add: near_ninety_def)
  have "near_ninety * deg_to_rad - near_ninety * (pi / 180) = near_ninety * (deg_to_rad - pi / 180)"
    by (simp only: right_diff_distrib)
  then have "\<bar>near_ninety * deg_to_rad - near_ninety * (pi / 180)\<bar> = \<bar>near_ninety\<bar> * \<bar>deg_to_rad - pi / 180\<bar>"
    by (simp only: abs_mult)
  also have "\<dots> = near_ninety * \<bar>deg_to_rad - pi / 180\<bar>"
    using x(1) by (simp only: abs_of_nonneg)
  also have "\<dots> \<le> 90 * (1 / 2 ^ 56)" using x c by (intro mult_mono) simp_all
  finally have p: "\<bar>near_ninety * deg_to_rad - near_ninety * (pi / 180)\<bar> \<le> 1 / 2 ^ 49" by simp
  have q: "near_ninety * (pi / 180) = pi / 2 - pi / 180 / 2 ^ 23" by (simp add: near_ninety_def field_simps)
  have s1: "0 \<le> pi / 180 / 2 ^ 23" by simp
  have "pi / 180 / 2 ^ 23 \<le> 4 / 180 / 2 ^ 23"
    using pi_less_4 by (intro divide_right_mono) simp_all
  then have s2: "pi / 180 / 2 ^ 23 \<le> 1 / 2 ^ 28" by simp
  have m: "\<bar>near_ninety * deg_to_rad\<bar> \<le> 4"
    using p s1 s2 pi_less_4 pi_ge_two unfolding abs_le_iff q by simp
  have "\<bar>radians_fl near_ninety - near_ninety * deg_to_rad\<bar> \<le> \<bar>near_ninety * deg_to_rad\<bar> / 2 ^ 53"
    unfolding radians_fl_def by (rule fl_error)
  also have "\<dots> \<le> 4 / 2 ^ 53" using m by (intro divide_right_mono) simp_all
  finally have r: "\<bar>radians_fl near_ninety - near_ninety * deg_to_rad\<bar> \<le> 1 / 2 ^ 51" by simp
  show ?thesis using p s1 s2 r pi_ge_two unfolding abs_le_iff q by simp
qed

lemma sin_degrees_near_ninety: "sin_degrees_fl near_ninety = 1"
proof -
  define r where "r = radians_fl near_ninety"
  have c: "\<bar>pi / 2 - r\<bar> \<le> 1 / 2 ^ 27"
    using radians_near_ninety_close by (simp add: r_def abs_minus_commute)
  have "(pi / 2 - r)\<^sup>2 = \<bar>pi / 2 - r\<bar>\<^sup>2" by simp
  also have "\<dots> \<le> (1 / 2 ^ 27)\<^sup>2" using c by (intro power_mono) simp_all
  finally have sq: "(pi / 2 - r)\<^sup>2 \<le> (1 / 2 ^ 27)\<^sup>2" .
  have "((1::real) / 2 ^ 27)\<^sup>2 = 1 / 2 ^ 54" by (simp add: power2_eq_square)
  with sq have "(pi / 2 - r)\<^sup>2 \<le> 1 / 2 ^ 54" by simp
  with one_minus_sin_le [of r] have "1 - 1 / 2 ^ 54 < sin r" by simp
  then have "fl (sin r) = 1" by (rule fl_near_one) simp
  then show ?thesis by (simp add: sin_degrees_fl_def sin_fl_def r_def)
qed

lemma degrees_asin_one_close: "\<bar>degrees_fl (asin_fl 1) - 90\<bar> \<le> 1 / 2 ^ 42"
proof -
  define a where "a = asin_fl 1"
  define K where "K = 180 / fl pi"
  have p0: "19 / 10 \<le> fl pi" "fl pi \<le> 41 / 10" by (rule fl_pi_bounds)+
  have "\<bar>a - pi / 2\<bar> \<le> \<bar>pi / 2\<bar> / 2 ^ 53"
    unfolding a_def asin_fl_def arcsin_1 by (rule fl_error)
  also have "\<dots> \<le> 2 / 2 ^ 53" using pi_less_4 by (intro divide_right_mono) simp_all
  finally have a1: "\<bar>a - pi / 2\<bar> \<le> 1 / 2 ^ 52" by simp
  have a2: "\<bar>a - fl pi / 2\<bar> \<le> 1 / 2 ^ 51"
    using a1 fl_pi_close unfolding abs_le_iff by simp
  have a3: "\<bar>a\<bar> \<le> 3" using a1 pi_less_4 pi_ge_two unfolding abs_le_iff by simp
  have K1: "0 < K" using p0 by (simp add: K_def)
  have K2: "K \<le> 128" using p0 by (simp add: K_def pos_divide_le_eq)
  have ninety: "fl pi / 2 * K = 90" using p0 by (simp add: K_def)
  have "\<bar>rad_to_deg - K\<bar> \<le> \<bar>K\<bar> / 2 ^ 53"
    unfolding rad_to_deg_def K_def by (rule fl_error)
  also have "\<dots> \<le> 128 / 2 ^ 53" using K1 K2 by (intro divide_right_mono) simp_all
  finally have k1: "\<bar>rad_to_deg - K\<bar> \<le> 1 / 2 ^ 46" by simp
  have "a * rad_to_deg - 90 = a * (rad_to_deg - K) + K * (a - fl pi / 2)"
    using ninety by (simp add: algebra_simps)
  then have tri: "\<bar>a * rad_to_deg - 90\<bar> \<le> \<bar>a * (rad_to_deg - K)\<bar> + \<bar>K * (a - fl pi / 2)\<bar>"
    by (simp only: abs_triangle_ineq)
  have t1: "\<bar>a * (rad_to_deg - K)\<bar> \<le> 3 * (1 / 2 ^ 46)"
    unfolding abs_mult using a3 k1 by (intro mult_mono) simp_all
  have t2: "\<bar>K * (a - fl pi / 2)\<bar> \<le> 128 * (1 / 2 ^ 51)"
    unfolding abs_mult using K1 K2 a2 by (intro mult_mono) simp_all
  have "\<bar>a * (rad_to_deg - K)\<bar> + \<bar>K * (a - fl pi / 2)\<bar> \<le> 1 / 2 ^ 43"
    using t1 t2 by simp
  with tri have prod: "\<bar>a * rad_to_deg - 90\<bar> \<le> 1 / 2 ^ 43" by (rule order_trans)
  have m: "\<bar>a * rad_to_deg\<bar> \<le> 91" using prod unfolding abs_le_iff by simp
  have "\<bar>degrees_fl a - a * rad_to_deg\<bar> \<le> \<bar>a * rad_to_deg\<bar> / 2 ^ 53"
    unfolding degrees_fl_def by (rule fl_error)
  also have "\<dots> \<le> 91 / 2 ^ 53" using m by (intro divide_right_mono) simp_all
  finally have last: "\<bar>degrees_fl a - a * rad_to_deg\<bar> \<le> 1 / 2 ^ 46" by simp
  have "\<bar>degrees_fl a - 90\<bar> \<le> 1 / 2 ^ 42"
    using prod last unfolding abs_le_iff by simp
  then show ?thesis by (simp only: a_def)
qed

lemma fl_near_ninety: "fl near_ninety = near_ninety"
proof -
  have pos: "0 < near_ninety" and ne: "near_ninety \<noteq> 0" by (simp_all add: near_ninety_def)
  have e: "\<lfloor>log 2 near_ninety\<rfloor> = 6"
    using floor_log_eq_powr_iff [of near_ninety 2 6] by (simp add: near_ninety_def)
  have p: "(2::real) powr (- 46) = 1 / 2 ^ 46" by (simp add: powr_minus)
  have "fl near_ninety = of_int (round_half_even (near_ninety / 2 powr (- 46))) * 2 powr (- 46)"
    using pos ne by (simp add: fl_def e Let_def)
  then have f: "fl near_ninety = of_int (round_half_even (near_ninety * 2 ^ 46)) * (1 / 2 ^ 46)"
    by (simp only: p) simp
  have "near_ninety * 2 ^ 46 = of_int (90 * 2 ^ 46 - 2 ^ 23)" by (simp add: near_ninety_def)
  then have r: "round_half_even (near_ninety * 2 ^ 46) = 90 * 2 ^ 46 - 2 ^ 23"
    by (simp only: round_half_even_of_int)
  have "fl near_ninety = of_int (90 * 2 ^ 46 - 2 ^ 23) * (1 / 2 ^ 46)" by (simp only: f r)
  also have "\<dots> = near_ninety" by (simp add: near_ninety_def)
  finally show ?thesis .
qed

text \<open>
  Claim C9, as stated, fails once results are rounded. The angle \<open>90 - 2^-23\<close> is a
  binary64 number within the range of the claim; its sine is so close to 1 that it
  rounds to 1, the arcsin of 1 is a quarter turn, and the result differs from the
  angle by more than \<open>10^-7\<close>: the two do not agree to 7 or more decimals, whatever
  the configured precision.
\<close>

theorem C9_round_trip_rounded_counterexample:
  "- 90 \<le> (90 - 1 / 2 ^ 23 :: real) \<and> (90 - 1 / 2 ^ 23 :: real) \<le> 90
   \<and> fl (90 - 1 / 2 ^ 23) = 90 - 1 / 2 ^ 23
   \<and> sin_degrees_fl (90 - 1 / 2 ^ 23) = 1
   \<and> arcsin_degrees_fl (sin_degrees_fl (90 - 1 / 2 ^ 23)) = Inr (degrees_fl (asin_fl 1))
   \<and> 1 / 10 ^ 7 < \<bar>degrees_fl (asin_fl 1) - (90 - 1 / 2 ^ 23)\<bar>"
proof (intro conjI)
  show "- 90 \<le> (90 - 1 / 2 ^ 23 :: real)" by simp
  show "(90 - 1 / 2 ^ 23 :: real) \<le> 90" by simp
  show "fl (90 - 1 / 2 ^ 23) = 90 - 1 / 2 ^ 23"
    using fl_near_ninety unfolding near_ninety_def .
  show s: "sin_degrees_fl (90 - 1 / 2 ^ 23) = 1"
    using sin_degrees_near_ninety unfolding near_ninety_def .
  show "arcsin_degrees_fl (sin_degrees_fl (90 - 1 / 2 ^ 23)) = Inr (degrees_fl (asin_fl 1))"
    unfolding s by (simp add: arcsin_degrees_fl_def)
  have d: "\<bar>degrees_fl (asin_fl 1) - 90\<bar> \<le> 1 / 2 ^ 42" by (rule degrees_asin_one_close)
  have "1 / 10 ^ 7 < degrees_fl (asin_fl 1) - (90 - 1 / 2 ^ 23)"
    using d unfolding abs_le_iff by simp
  also have "\<dots> \<le> \<bar>degrees_fl (asin_fl 1) - (90 - 1 / 2 ^ 23)\<bar>" by (rule abs_ge_self)
  finally show "1 / 10 ^ 7 < \<bar>degrees_fl (asin_fl 1) - (90 - 1 / 2 ^ 23)\<bar>" .
qed

lemma round_trip_angle:
  assumes "- 90 \<le> x" and "x \<le> 90"
  shows "arcsin (sin (x * (pi / 180))) * (180 / pi) = x"
proof -
  have "x * (pi / 180) \<le> 90 * (pi / 180)" using assms(2) by (intro mult_right_mono) simp_all
  then have hi: "x * (pi / 180) \<le> pi / 2" by simp
  have "(- 90) * (pi / 180) \<le> x * (pi / 180)" using assms(1) by (intro mult_right_mono) simp_all
  then have lo: "- (pi / 2) \<le> x * (pi / 180)" by simp
  have "arcsin (sin (x * (pi / 180))) = x * (pi / 180)" using lo hi by (rule arcsin_sin)
  then show ?thesis by simp
qed

lemma round_trip_angle_normal:
  "- 90 \<le> x \<Longrightarrow> x \<le> 90 \<Longrightarrow> arcsin (sin (x * pi / 180)) * 180 / pi = x"
  using round_trip_angle [of x] by simp

text \<open>
  Claim C9, amended. For every \<open>x\<close> from -90 to 90, in Degrees mode, arcsin applied to
  the result of sin returns \<open>x\<close> itself when the two functions and the two conversions
  are the exact real ones: the domain guard of arcsin passes and the round trip is
  exact. (With binary64 rounding the result is only close to \<open>x\<close>, and near 90 degrees
  not to the configured precision, as the counterexample shows.)
\<close>

theorem C9_round_trip_exact:
  "- 90 \<le> x \<and> x \<le> 90 \<longrightarrow>
     evaluate ''Trigonometry'' ''sin'' (PFloat x) y base ''Degrees''
       = Success (PFloat (sin (x * (pi / 180))))
     \<and> evaluate ''Inverse Trig'' ''arcsin'' (PFloat (sin (x * (pi / 180)))) y base ''Degrees''
       = Success (PFloat x)"
  by (simp add: evaluate_trig evaluate_arcsin round_trip_angle_normal)

theorem C9_round_trip_exact_witness:
  "evaluate ''Trigonometry'' ''sin'' (PFloat 90) PNone PNone ''Degrees'' = Success (PFloat 1)
   \<and> evaluate ''Inverse Trig'' ''arcsin'' (PFloat 1) PNone PNone ''Degrees''
       = Success (PFloat 90)"
  using C9_round_trip_exact [of 90 PNone PNone] by simp

end
